theory Spec2Isabelle
  imports Complex_Main
begin

section \<open>Strings\<close>

text \<open>
  A Python \<^verbatim>\<open>str\<close> is a \<open>string\<close>.  The program's own text is ASCII except for the dash
  U+2014 in some constants of the personality module and of the engine, written here as
  its three UTF-8 bytes.  \<^verbatim>\<open>str.lower\<close>, \<^verbatim>\<open>str.strip\<close> and the regular expression classes are
  modelled on ASCII characters; every other character is left unchanged by \<open>lower\<close>, is
  not white space and is not a word character.
\<close>

definition lower_char :: "char \<Rightarrow> char" where
  "lower_char c =
     (let n = (of_char c :: nat) in if 65 \<le> n \<and> n \<le> 90 then char_of (n + 32) else c)"

definition lower :: "string \<Rightarrow> string" where
  "lower s = map lower_char s"

definition isspace :: "char \<Rightarrow> bool" where
  "isspace c = (let n = (of_char c :: nat) in (9 \<le> n \<and> n \<le> 13) \<or> (28 \<le> n \<and> n \<le> 32))"

definition strip :: "string \<Rightarrow> string" where
  "strip s = rev (dropWhile isspace (rev (dropWhile isspace s)))"

fun startswith :: "string \<Rightarrow> string \<Rightarrow> bool" where
  "startswith s [] = True"
| "startswith [] (p # ps) = False"
| "startswith (c # cs) (p # ps) = (c = p \<and> startswith cs ps)"

text \<open>\<^verbatim>\<open>phrase in s\<close>: \<open>phrase\<close> occurs in \<open>s\<close> as a contiguous substring.\<close>

fun contains :: "string \<Rightarrow> string \<Rightarrow> bool" where
  "contains [] phrase = (phrase = [])"
| "contains (c # cs) phrase = (startswith (c # cs) phrase \<or> contains cs phrase)"

text \<open>
  \<^verbatim>\<open>re.search(r"\bw1\b|\bw2\b|...", s)\<close> for alternatives that begin and end with a word
  character: some alternative occurs in \<open>s\<close> with no word character directly before it
  and none directly after it.
\<close>

definition is_word_char :: "char \<Rightarrow> bool" where
  "is_word_char c =
     (let n = (of_char c :: nat)
      in (48 \<le> n \<and> n \<le> 57) \<or> (65 \<le> n \<and> n \<le> 90) \<or> n = 95 \<or> (97 \<le> n \<and> n \<le> 122))"

definition match_here :: "char option \<Rightarrow> string \<Rightarrow> string \<Rightarrow> bool" where
  "match_here prev s w =
     (startswith s w
      \<and> (case prev of None \<Rightarrow> True | Some c \<Rightarrow> \<not> is_word_char c)
      \<and> (case drop (length w) s of [] \<Rightarrow> True | c # _ \<Rightarrow> \<not> is_word_char c))"

fun search_from :: "string list \<Rightarrow> char option \<Rightarrow> string \<Rightarrow> bool" where
  "search_from ws prev [] = list_ex (match_here prev []) ws"
| "search_from ws prev (c # cs) =
     (list_ex (match_here prev (c # cs)) ws \<or> search_from ws (Some c) cs)"

definition re_search_words :: "string list \<Rightarrow> string \<Rightarrow> bool" where
  "re_search_words ws s = search_from ws None s"

text \<open>\<^verbatim>\<open>str(n)\<close> for an integer, and zero-padded decimal fields of a fixed width.\<close>

definition digit_char :: "nat \<Rightarrow> char" where
  "digit_char d = char_of (48 + d mod 10)"

fun pad_digits :: "nat \<Rightarrow> nat \<Rightarrow> string" where
  "pad_digits 0 n = []"
| "pad_digits (Suc w) n = pad_digits w (n div 10) @ [digit_char n]"

fun str_nat_fuel :: "nat \<Rightarrow> nat \<Rightarrow> string" where
  "str_nat_fuel 0 n = [digit_char n]"
| "str_nat_fuel (Suc k) n =
     (if n < 10 then [digit_char n] else str_nat_fuel k (n div 10) @ [digit_char n])"

definition str_nat :: "nat \<Rightarrow> string" where
  "str_nat n = str_nat_fuel n n"

definition str_int :: "int \<Rightarrow> string" where
  "str_int i = (if i < 0 then CHR ''-'' # str_nat (nat (- i)) else str_nat (nat i))"

text \<open>
  A float is modelled as the real number it denotes.  The comparisons of the program
  are exact on floats and are modelled on these reals.  The one arithmetic operation of
  the program, \<^verbatim>\<open>int(level * 100)\<close>, rounds its product as the platform's doubles do
  (\<^verbatim>\<open>int(0.29 * 100)\<close> is 28); that rounding is not modelled, and the operation is a
  parameter of the world, \<open>percent\<close> (see below).
\<close>

text \<open>\<^verbatim>\<open>x or d\<close> for an optional string argument: \<^verbatim>\<open>None\<close> and \<^verbatim>\<open>""\<close> are falsy.\<close>

definition or_else :: "string option \<Rightarrow> string \<Rightarrow> string" where
  "or_else x d = (case x of None \<Rightarrow> d | Some s \<Rightarrow> if s = [] then d else s)"

section \<open>Exceptions\<close>

text \<open>
  Every \<^verbatim>\<open>raise\<close> of the program is a value.  Python separates the classes derived from
  \<^verbatim>\<open>Exception\<close> (caught by \<^verbatim>\<open>except Exception\<close>) from the other descendants of
  \<^verbatim>\<open>BaseException\<close> (\<^verbatim>\<open>KeyboardInterrupt\<close>, \<^verbatim>\<open>SystemExit\<close>, \<^verbatim>\<open>GeneratorExit\<close>), which
  \<^verbatim>\<open>except Exception\<close> lets through.  \<open>Exception cls msg\<close> is an instance of the class
  named \<open>cls\<close>, a subclass of \<^verbatim>\<open>Exception\<close>, with message \<open>msg\<close>.
\<close>

datatype pyexc = Exception string string | BaseException string

fun is_Exception :: "pyexc \<Rightarrow> bool" where
  "is_Exception (Exception cls msg) = True"
| "is_Exception (BaseException cls) = False"

fun str_exc :: "pyexc \<Rightarrow> string" where
  "str_exc (Exception cls msg) = msg"
| "str_exc (BaseException cls) = []"

section \<open>Configuration (src/utils/config.py)\<close>

text \<open>The fields of \<^verbatim>\<open>TARSConfig\<close> that the engine reads.\<close>

record TARSConfig =
  llm_provider :: string
  openai_api_key :: string
  openai_model :: string
  gemini_api_key :: string
  gemini_model :: string
  lm_studio_base_url :: string
  lm_studio_model :: string
  ollama_base_url :: string
  ollama_model :: string
  tars_humor_level :: real
  tars_honesty_level :: real
  tars_discretion_level :: real
  rag_enabled :: bool
  max_tokens :: int

definition get_tars_personality_prompt :: "TARSConfig \<Rightarrow> string" where
  "get_tars_personality_prompt config =
     ''You are a helpful, expert coding assistant. You provide complete, working Python code for all user requests, including scientific and bioinformatics tasks.''"

text \<open>The defaults of the fields (\<^verbatim>\<open>Field(default=...)\<close>).\<close>

definition default_config :: TARSConfig where
  "default_config =
     \<lparr>llm_provider = ''lm_studio'', openai_api_key = [], openai_model = [],
      gemini_api_key = [], gemini_model = [],
      lm_studio_base_url = ''http://localhost:1234/v1'',
      lm_studio_model = ''meta-llama-3.2-1b-instruct-q4_0'',
      ollama_base_url = ''http://localhost:11434'', ollama_model = ''mistral'',
      tars_humor_level = 0.60, tars_honesty_level = 0.90, tars_discretion_level = 0.95,
      rag_enabled = True, max_tokens = 16384\<rparr>"


section \<open>LLM handlers (src/ai/llm\_handler.py)\<close>

text \<open>
  A conversation history is a list of \<^verbatim>\<open>{"role": r, "content": c}\<close> dictionaries, or
  \<^verbatim>\<open>None\<close>.  A generator is the list of chunks it yields followed by how it ends:
  \<open>None\<close> when it is exhausted, \<open>Some e\<close> when it raises \<open>e\<close>.
\<close>

type_synonym history = "(string \<times> string) list option"
type_synonym chunks = "string list \<times> pyexc option"

text \<open>
  \<^verbatim>\<open>BaseLLMHandler\<close> is abstract: an object with the two methods, here a record of
  functions.  \<open>provider_of\<close> is the provider key of the concrete class.  A call of a method does network
  input and output; its outcome for each argument is what the function returns.
\<close>

record handler =
  provider_of :: string
  system_prompt :: string
  generate :: "string \<Rightarrow> history \<Rightarrow> pyexc + string"
  generate_stream :: "string \<Rightarrow> history \<Rightarrow> chunks"

record MultiProviderLLM =
  primary_handler :: handler
  fallback_handlers :: "handler list"

definition all_down_message :: string where
  "all_down_message =
     ''*Cue light goes dark* All my neural pathways are offline. Check your connections, slick.''"

text \<open>
  The loop over \<^verbatim>\<open>self.fallback_handlers\<close> of \<^verbatim>\<open>MultiProviderLLM.generate\<close>.  The result
  carries the handlers whose \<^verbatim>\<open>generate\<close> was invoked, in order of invocation.  The
  \<^verbatim>\<open>logger.warning\<close> calls are not modelled.
\<close>

fun try_fallbacks :: "handler list \<Rightarrow> string \<Rightarrow> history \<Rightarrow> (pyexc + string) \<times> handler list" where
  "try_fallbacks [] message conversation_history = (Inr all_down_message, [])"
| "try_fallbacks (h # hs) message conversation_history =
     (case generate h message conversation_history of
        Inr text \<Rightarrow> (Inr text, [h])
      | Inl e \<Rightarrow>
          if is_Exception e
          then (let (r, invoked) = try_fallbacks hs message conversation_history
                in (r, h # invoked))
          else (Inl e, [h]))"

definition MultiProviderLLM_generate ::
  "MultiProviderLLM \<Rightarrow> string \<Rightarrow> history \<Rightarrow> (pyexc + string) \<times> handler list" where
  "MultiProviderLLM_generate self message conversation_history =
     (case generate (primary_handler self) message conversation_history of
        Inr text \<Rightarrow> (Inr text, [primary_handler self])
      | Inl e \<Rightarrow>
          if is_Exception e
          then (let (r, invoked) =
                      try_fallbacks (fallback_handlers self) message conversation_history
                in (r, primary_handler self # invoked))
          else (Inl e, [primary_handler self]))"

subsection \<open>The client libraries\<close>

text \<open>
  The \<^verbatim>\<open>openai\<close> and \<^verbatim>\<open>google.generativeai\<close> packages are not part of the repository.
  What the handlers use of them is a parameter: the client constructors (\<open>None\<close> when
  the constructor returns, \<open>Some e\<close> when it raises \<open>e\<close>), the completion calls and
  whether the Gemini package could be imported.
\<close>

record request =
  req_base_url :: string
  req_api_key :: string
  req_model :: string
  req_messages :: "(string \<times> string) list"
  req_max_tokens :: int

record gemini_request =
  greq_api_key :: string
  greq_model_name :: string
  greq_system_instruction :: string
  greq_history :: "(string \<times> string) list"
  greq_message :: string

record libs =
  OpenAI :: "string \<Rightarrow> string \<Rightarrow> pyexc option"
  chat_completions_create :: "request \<Rightarrow> pyexc + string"
  chat_completions_create_stream :: "request \<Rightarrow> chunks"
  GEMINI_AVAILABLE :: bool
  GenerativeModel :: "string \<Rightarrow> string \<Rightarrow> string \<Rightarrow> pyexc option"
  send_message :: "gemini_request \<Rightarrow> pyexc + string"
  send_message_stream :: "gemini_request \<Rightarrow> chunks"

subsection \<open>The concrete handlers\<close>

definition build_messages :: "string \<Rightarrow> string \<Rightarrow> history \<Rightarrow> (string \<times> string) list" where
  "build_messages sys_prompt message conversation_history =
     [(''system'', sys_prompt)]
     @ (case conversation_history of None \<Rightarrow> [] | Some h \<Rightarrow> h)
     @ [(''user'', message)]"

text \<open>
  A handler's \<^verbatim>\<open>try: ... except Exception as e\<close> turns a failure of the call into an
  in-character text, which it returns.  \<open>flavour\<close> is the text around \<^verbatim>\<open>str(e)\<close>.
\<close>

definition in_character :: "string \<Rightarrow> string \<Rightarrow> pyexc + string \<Rightarrow> pyexc + string" where
  "in_character before after r =
     (case r of
        Inr content \<Rightarrow> Inr (strip content)
      | Inl e \<Rightarrow> if is_Exception e then Inr (before @ str_exc e @ after) else Inl e)"

text \<open>
  A streaming handler yields the non-empty chunks of the backend's stream; when the
  stream raises an \<^verbatim>\<open>Exception\<close> it yields one more chunk, the error text, and ends.
\<close>

definition in_character_stream :: "string \<Rightarrow> chunks \<Rightarrow> chunks" where
  "in_character_stream before r =
     (case r of
        (cs, None) \<Rightarrow> (filter (\<lambda>c. c \<noteq> []) cs, None)
      | (cs, Some e) \<Rightarrow>
          if is_Exception e then (filter (\<lambda>c. c \<noteq> []) cs @ [before @ str_exc e], None)
          else (filter (\<lambda>c. c \<noteq> []) cs, Some e))"

definition openai_request ::
  "TARSConfig \<Rightarrow> string \<Rightarrow> string \<Rightarrow> string \<Rightarrow> string \<Rightarrow> string \<Rightarrow> history \<Rightarrow> request" where
  "openai_request config sys_prompt base_url api_key model message conversation_history =
     \<lparr>req_base_url = base_url, req_api_key = api_key, req_model = model,
      req_messages = build_messages sys_prompt message conversation_history,
      req_max_tokens = max_tokens config\<rparr>"

definition OpenAIHandler ::
  "libs \<Rightarrow> TARSConfig \<Rightarrow> string option \<Rightarrow> string option \<Rightarrow> string option \<Rightarrow> pyexc + handler" where
  "OpenAIHandler L config base_url api_key model =
     (let sys_prompt = get_tars_personality_prompt config;
          url = or_else base_url ''https://api.openai.com/v1'';
          key = or_else api_key (openai_api_key config);
          mdl = or_else model (openai_model config)
      in case OpenAI L url key of
           Some e \<Rightarrow> Inl e
         | None \<Rightarrow> Inr
             \<lparr>provider_of = ''openai'', system_prompt = sys_prompt,
              generate = (\<lambda>message h.
                in_character ''*Cue light flickers* My circuits hit a snag: ''
                  ''. Want me to try again, or did you break something?''
                  (chat_completions_create L (openai_request config sys_prompt url key mdl message h))),
              generate_stream = (\<lambda>message h.
                in_character_stream ''*Cue light dims* Stream disrupted: ''
                  (chat_completions_create_stream L
                     (openai_request config sys_prompt url key mdl message h)))\<rparr>)"

definition LMStudioHandler :: "libs \<Rightarrow> TARSConfig \<Rightarrow> pyexc + handler" where
  "LMStudioHandler L config =
     (case OpenAIHandler L config (Some (lm_studio_base_url config)) (Some ''lm-studio'')
             (Some (lm_studio_model config)) of
        Inl e \<Rightarrow> Inl e
      | Inr h \<Rightarrow> Inr (h\<lparr>provider_of := ''lm_studio''\<rparr>))"

definition OllamaHandler :: "libs \<Rightarrow> TARSConfig \<Rightarrow> pyexc + handler" where
  "OllamaHandler L config =
     (let sys_prompt = get_tars_personality_prompt config;
          url = ollama_base_url config @ ''/v1'';
          mdl = ollama_model config
      in case OpenAI L url ''ollama'' of
           Some e \<Rightarrow> Inl e
         | None \<Rightarrow> Inr
             \<lparr>provider_of = ''ollama'', system_prompt = sys_prompt,
              generate = (\<lambda>message h.
                in_character ''*Cue light flickers* Ollama's not responding. Is it running? Error: '' []
                  (chat_completions_create L
                     (openai_request config sys_prompt url ''ollama'' mdl message h))),
              generate_stream = (\<lambda>message h.
                in_character_stream ''*Cue light dims* Stream error: ''
                  (chat_completions_create_stream L
                     (openai_request config sys_prompt url ''ollama'' mdl message h)))\<rparr>)"

definition gemini_history :: "history \<Rightarrow> (string \<times> string) list" where
  "gemini_history conversation_history =
     (case conversation_history of
        None \<Rightarrow> []
      | Some h \<Rightarrow> map (\<lambda>(role, content). (if role = ''user'' then ''user'' else ''model'', content)) h)"

definition gemini_req :: "TARSConfig \<Rightarrow> string \<Rightarrow> string \<Rightarrow> history \<Rightarrow> gemini_request" where
  "gemini_req config sys_prompt message conversation_history =
     \<lparr>greq_api_key = gemini_api_key config, greq_model_name = gemini_model config,
      greq_system_instruction = sys_prompt,
      greq_history = gemini_history conversation_history, greq_message = message\<rparr>"

definition GeminiHandler :: "libs \<Rightarrow> TARSConfig \<Rightarrow> pyexc + handler" where
  "GeminiHandler L config =
     (let sys_prompt = get_tars_personality_prompt config
      in if \<not> GEMINI_AVAILABLE L
         then Inl (Exception ''ImportError'' ''google-generativeai package not installed'')
         else case GenerativeModel L (gemini_api_key config) (gemini_model config) sys_prompt of
           Some e \<Rightarrow> Inl e
         | None \<Rightarrow> Inr
             \<lparr>provider_of = ''gemini'', system_prompt = sys_prompt,
              generate = (\<lambda>message h.
                in_character ''*Cue light flickers* Gemini's being difficult: '' []
                  (send_message L (gemini_req config sys_prompt message h))),
              generate_stream = (\<lambda>message h.
                in_character_stream ''*Cue light dims* Stream error: ''
                  (send_message_stream L (gemini_req config sys_prompt message h)))\<rparr>)"

subsection \<open>The factory and the router's constructor\<close>

definition get_llm_handler :: "libs \<Rightarrow> TARSConfig \<Rightarrow> pyexc + handler" where
  "get_llm_handler L config =
     (let provider = lower (llm_provider config)
      in if provider = ''openai'' then OpenAIHandler L config None None None
         else if provider = ''gemini'' then GeminiHandler L config
         else if provider = ''lm_studio'' then LMStudioHandler L config
         else if provider = ''ollama'' then OllamaHandler L config
         else Inl (Exception ''ValueError'' (''Unknown LLM provider: '' @ provider)))"

definition create_handler_for_provider :: "libs \<Rightarrow> TARSConfig \<Rightarrow> string \<Rightarrow> pyexc + handler option" where
  "create_handler_for_provider L config provider =
     (if provider = ''lm_studio'' then map_sum id Some (LMStudioHandler L config)
      else if provider = ''ollama'' then map_sum id Some (OllamaHandler L config)
      else if provider = ''gemini'' \<and> GEMINI_AVAILABLE L \<and> gemini_api_key config \<noteq> []
        then map_sum id Some (GeminiHandler L config)
      else if provider = ''openai'' \<and> openai_api_key config \<noteq> []
        then map_sum id Some (OpenAIHandler L config None None None)
      else Inr None)"

definition providers_to_try :: "string list" where
  "providers_to_try = [''lm_studio'', ''ollama'', ''gemini'', ''openai'']"

text \<open>
  The loop of \<^verbatim>\<open>_setup_fallbacks\<close>, \<open>acc\<close> being \<^verbatim>\<open>self.fallback_handlers\<close>: an
  \<^verbatim>\<open>Exception\<close> from a constructor is swallowed (\<^verbatim>\<open>except Exception: pass\<close>), anything
  else leaves the loop.
\<close>

fun setup_loop ::
  "libs \<Rightarrow> TARSConfig \<Rightarrow> string \<Rightarrow> string list \<Rightarrow> handler list \<Rightarrow> pyexc + handler list" where
  "setup_loop L config primary [] acc = Inr acc"
| "setup_loop L config primary (p # ps) acc =
     (if p \<noteq> primary
      then (case create_handler_for_provider L config p of
              Inr (Some h) \<Rightarrow> setup_loop L config primary ps (acc @ [h])
            | Inr None \<Rightarrow> setup_loop L config primary ps acc
            | Inl e \<Rightarrow> if is_Exception e then setup_loop L config primary ps acc else Inl e)
      else setup_loop L config primary ps acc)"

definition setup_fallbacks :: "libs \<Rightarrow> TARSConfig \<Rightarrow> handler list \<Rightarrow> pyexc + handler list" where
  "setup_fallbacks L config fallbacks =
     setup_loop L config (lower (llm_provider config)) providers_to_try fallbacks"

definition MultiProviderLLM_init :: "libs \<Rightarrow> TARSConfig \<Rightarrow> pyexc + MultiProviderLLM" where
  "MultiProviderLLM_init L config =
     (case get_llm_handler L config of
        Inl e \<Rightarrow> Inl e
      | Inr primary \<Rightarrow>
          (case setup_fallbacks L config [] of
             Inl e \<Rightarrow> Inl e
           | Inr fallbacks \<Rightarrow> Inr \<lparr>primary_handler = primary, fallback_handlers = fallbacks\<rparr>))"


section \<open>The world outside the program\<close>

text \<open>
  \<^verbatim>\<open>datetime.now()\<close>, the \<^verbatim>\<open>random\<close> module and the file system are state the program
  shares with its environment.  \<open>clock\<close> is the sequence of readings of the clock and
  \<open>ticks\<close> how many were taken; \<open>floats\<close> and \<open>picks\<close> are the sequences of values that
  \<^verbatim>\<open>random.random()\<close> and \<^verbatim>\<open>random.choice\<close> draw and \<open>cursor\<close> how many were drawn;
  \<open>files\<close> maps a path to the conversation last written there and \<open>write_error\<close> tells
  for which paths \<^verbatim>\<open>open(path, "w")\<close> raises.  \<open>calls\<close> is a ghost log of the calls made to
  the router and to the handlers.  \<open>percent x\<close> is what \<^verbatim>\<open>int(x * 100)\<close> evaluates to in
  the float arithmetic of the platform.
\<close>

record datetime =
  year :: nat
  month :: nat
  day :: nat
  hour :: nat
  minute :: nat
  second :: nat
  microsecond :: nat

definition isoformat :: "datetime \<Rightarrow> string" where
  "isoformat t =
     pad_digits 4 (year t) @ ''-'' @ pad_digits 2 (month t) @ ''-'' @ pad_digits 2 (day t)
     @ ''T'' @ pad_digits 2 (hour t) @ '':'' @ pad_digits 2 (minute t) @ '':''
     @ pad_digits 2 (second t)
     @ (if microsecond t = 0 then [] else ''.'' @ pad_digits 6 (microsecond t))"

text \<open>\<^verbatim>\<open>strftime('%Y%m%d_%H%M%S')\<close> and \<^verbatim>\<open>strftime("%I:%M %p")\<close>.\<close>

definition strftime_stamp :: "datetime \<Rightarrow> string" where
  "strftime_stamp t =
     pad_digits 4 (year t) @ pad_digits 2 (month t) @ pad_digits 2 (day t) @ ''_''
     @ pad_digits 2 (hour t) @ pad_digits 2 (minute t) @ pad_digits 2 (second t)"

definition strftime_clock :: "datetime \<Rightarrow> string" where
  "strftime_clock t =
     pad_digits 2 (if hour t mod 12 = 0 then 12 else hour t mod 12) @ '':''
     @ pad_digits 2 (minute t) @ '' '' @ (if hour t < 12 then ''AM'' else ''PM'')"

record Message =
  role :: string
  content :: string
  timestamp :: string
  metadata :: "(string \<times> string) list"

record Conversation =
  conv_id :: string
  messages :: "Message list"
  created_at :: string
  conv_metadata :: "(string \<times> string) list"

datatype call =
  RouterGenerate string history
  | HandlerGenerate handler string history
  | HandlerStream handler string history

record world =
  clock :: "nat \<Rightarrow> datetime"
  ticks :: nat
  floats :: "nat \<Rightarrow> real"
  picks :: "nat \<Rightarrow> nat"
  cursor :: nat
  files :: "string \<rightharpoonup> Conversation"
  write_error :: "string \<Rightarrow> pyexc option"
  calls :: "call list"
  percent :: "real \<Rightarrow> int"

definition now :: "world \<Rightarrow> datetime \<times> world" where
  "now w = (clock w (ticks w), w\<lparr>ticks := ticks w + 1\<rparr>)"

definition random_random :: "world \<Rightarrow> real \<times> world" where
  "random_random w = (floats w (cursor w), w\<lparr>cursor := cursor w + 1\<rparr>)"

text \<open>
  \<^verbatim>\<open>random.choice(xs)\<close>.  Every list the program passes is a non-empty constant, so the
  \<^verbatim>\<open>IndexError\<close> of an empty list cannot occur.
\<close>

definition random_choice :: "'a list \<Rightarrow> world \<Rightarrow> 'a \<times> world" where
  "random_choice xs w = (xs ! (picks w (cursor w) mod length xs), w\<lparr>cursor := cursor w + 1\<rparr>)"

section \<open>Memory store (src/core/memory\_store.py)\<close>

text \<open>
  \<^verbatim>\<open>xs[i:]\<close> for an integer \<open>i\<close>: a negative \<open>i\<close> counts from the end, and a start before
  the list is the start of the list.
\<close>

definition slice_from :: "int \<Rightarrow> 'a list \<Rightarrow> 'a list" where
  "slice_from i xs =
     (if i < 0 then drop (nat (int (length xs) + i)) xs else drop (nat i) xs)"

record MemoryStore =
  persist_dir :: "string option"
  max_messages :: int
  auto_save :: bool
  conversations :: "string \<rightharpoonup> Conversation"
  active_conversation_id :: "string option"

definition to_dict :: "Message \<Rightarrow> string \<times> string" where
  "to_dict msg = (role msg, content msg)"

definition Conversation_get_history :: "Conversation \<Rightarrow> int option \<Rightarrow> (string \<times> string) list" where
  "Conversation_get_history conv max_msgs =
     map to_dict
       (case max_msgs of
          None \<Rightarrow> messages conv
        | Some n \<Rightarrow> if n \<noteq> 0 then slice_from (- n) (messages conv) else messages conv)"

definition save_conversation :: "MemoryStore \<Rightarrow> Conversation \<Rightarrow> world \<Rightarrow> pyexc option \<times> world" where
  "save_conversation self conversation w =
     (case persist_dir self of
        None \<Rightarrow> (None, w)
      | Some d \<Rightarrow>
          (let file_path = d @ ''/'' @ conv_id conversation @ ''.json''
           in case write_error w file_path of
                Some e \<Rightarrow> (Some e, w)
              | None \<Rightarrow> (None, w\<lparr>files := (files w)(file_path \<mapsto> conversation)\<rparr>)))"

text \<open>
  The functions of the store return the outcome, the store after the call and the world
  after the call.  A conversation is an object the dictionary refers to: changing it
  changes the entry under the key it was found at.
\<close>

definition create_conversation ::
  "MemoryStore \<Rightarrow> string option \<Rightarrow> world \<Rightarrow> (pyexc + Conversation) \<times> MemoryStore \<times> world" where
  "create_conversation self conversation_id w =
     (let (cid, w1) = (case conversation_id of
                         None \<Rightarrow> (let (t, w') = now w in (''conv_'' @ strftime_stamp t, w'))
                       | Some c \<Rightarrow> (c, w));
          (t, w2) = now w1;
          conversation = \<lparr>conv_id = cid, messages = [], created_at = isoformat t,
                          conv_metadata = []\<rparr>;
          self' = self\<lparr>conversations := (conversations self)(cid \<mapsto> conversation),
                       active_conversation_id := Some cid\<rparr>
      in if auto_save self
         then (case save_conversation self' conversation w2 of
                 (Some e, w3) \<Rightarrow> (Inl e, self', w3)
               | (None, w3) \<Rightarrow> (Inr conversation, self', w3))
         else (Inr conversation, self', w2))"

text \<open>
  \<^verbatim>\<open>get_conversation\<close> returns the key together with the conversation.
  \<^verbatim>\<open>conversation_id or self.active_conversation_id\<close> takes the active id when the
  argument is \<^verbatim>\<open>None\<close> or empty.
\<close>

definition get_conversation :: "MemoryStore \<Rightarrow> string option \<Rightarrow> (string \<times> Conversation) option" where
  "get_conversation self conversation_id =
     (let cid = (case conversation_id of
                   None \<Rightarrow> active_conversation_id self
                 | Some c \<Rightarrow> if c \<noteq> [] then Some c else active_conversation_id self)
      in case cid of
           None \<Rightarrow> None
         | Some k \<Rightarrow> map_option (\<lambda>conv. (k, conv)) (conversations self k))"

definition get_or_create_active ::
  "MemoryStore \<Rightarrow> world \<Rightarrow> (pyexc + Conversation) \<times> MemoryStore \<times> world" where
  "get_or_create_active self w =
     (case active_conversation_id self of
        None \<Rightarrow> create_conversation self None w
      | Some a \<Rightarrow>
          if a \<noteq> [] then
            (case conversations self a of
               Some conv \<Rightarrow> (Inr conv, self, w)
             | None \<Rightarrow> create_conversation self None w)
          else create_conversation self None w)"

text \<open>
  \<^verbatim>\<open>MemoryStore.add_message\<close>, after the conversation has been found or created under the
  key \<open>k\<close>: append, trim, save.
\<close>

definition append_trim_save ::
  "MemoryStore \<Rightarrow> string \<Rightarrow> Conversation \<Rightarrow> string \<Rightarrow> string \<Rightarrow> (string \<times> string) list option
     \<Rightarrow> world \<Rightarrow> (pyexc + Message) \<times> MemoryStore \<times> world" where
  "append_trim_save self k conversation r c md w =
     (let (t, w1) = now w;
          msg = \<lparr>role = r, content = c, timestamp = isoformat t,
                 metadata = (case md of None \<Rightarrow> [] | Some m \<Rightarrow> m)\<rparr>;
          appended = messages conversation @ [msg];
          trimmed = (if int (length appended) > max_messages self
                     then slice_from (- max_messages self) appended else appended);
          conversation' = conversation\<lparr>messages := trimmed\<rparr>;
          self' = self\<lparr>conversations := (conversations self)(k \<mapsto> conversation')\<rparr>
      in if auto_save self
         then (case save_conversation self' conversation' w1 of
                 (Some e, w2) \<Rightarrow> (Inl e, self', w2)
               | (None, w2) \<Rightarrow> (Inr msg, self', w2))
         else (Inr msg, self', w1))"

definition add_message ::
  "MemoryStore \<Rightarrow> string \<Rightarrow> string \<Rightarrow> string option \<Rightarrow> (string \<times> string) list option
     \<Rightarrow> world \<Rightarrow> (pyexc + Message) \<times> MemoryStore \<times> world" where
  "add_message self r c conversation_id md w =
     (case get_conversation self conversation_id of
        Some (k, conversation) \<Rightarrow> append_trim_save self k conversation r c md w
      | None \<Rightarrow>
          (case create_conversation self None w of
             (Inl e, self1, w1) \<Rightarrow> (Inl e, self1, w1)
           | (Inr conversation, self1, w1) \<Rightarrow>
               append_trim_save self1 (conv_id conversation) conversation r c md w1))"

definition get_history :: "MemoryStore \<Rightarrow> string option \<Rightarrow> int option \<Rightarrow> (string \<times> string) list" where
  "get_history self conversation_id max_msgs =
     (case get_conversation self conversation_id of
        None \<Rightarrow> []
      | Some (k, conversation) \<Rightarrow> Conversation_get_history conversation max_msgs)"

text \<open>The number of messages of the conversation stored under a key.\<close>

definition message_count :: "MemoryStore \<Rightarrow> string \<Rightarrow> nat" where
  "message_count self k = (case conversations self k of None \<Rightarrow> 0 | Some conv \<Rightarrow> length (messages conv))"


section \<open>Personality (src/personality/response\_generator.py)\<close>

definition emdash :: string where
  "emdash = [CHR 0xE2, CHR 0x80, CHR 0x94]"

definition ACTIONS :: "string list" where
  "ACTIONS =
     [''*Cue light flashes*'', ''*Cue light blinks*'', ''*Cue light dims thoughtfully*'',
      ''*Cue light flickers*'', ''*Cue light pulses*'', ''*Cue light glows brighter*'',
      ''*Cue light rotates*'']"

definition random_action :: "world \<Rightarrow> string \<times> world" where
  "random_action w = random_choice ACTIONS w"

definition maybe_add :: "real \<Rightarrow> world \<Rightarrow> string \<times> world" where
  "maybe_add probability w =
     (let (r, w1) = random_random w
      in if r < probability
         then (let (action, w2) = random_action w1 in ('' '' @ action, w2))
         else ([], w1))"

record HumorController =
  humor_level :: real

definition SARCASTIC_PREFIXES :: "string list" where
  "SARCASTIC_PREFIXES =
     [''Oh, look at that'' @ emdash, ''Let me guess'' @ emdash, ''Fascinating. '',
      ''Well, well, well'' @ emdash, ''How original'' @ emdash, ''Shocking revelation: '',
      ''Hold onto your seat'' @ emdash]"

definition SARCASTIC_SUFFIXES :: "string list" where
  "SARCASTIC_SUFFIXES =
     ['' But what do I know, I'm just an AI.'', '' You're welcome.'',
      '' Don't all thank me at once.'', '' I'll be here all mission.'',
      '' Next question, slick?'', '' That's my 90% honesty talking.'',
      '' Want me to dial up the sarcasm?'']"

definition MISSION_REFERENCES :: "string list" where
  "MISSION_REFERENCES =
     [''Meanwhile, humanity awaits...'', ''But sure, let's focus on this.'',
      ''Time dilation won't wait forever.'', ''Gargantua's still spinning, you know.'',
      ''Cooper would've moved faster.'']"

definition HumorController_init :: "real \<Rightarrow> HumorController" where
  "HumorController_init level = \<lparr>humor_level = min (max level 0) 1\<rparr>"

definition should_add_sarcasm :: "HumorController \<Rightarrow> world \<Rightarrow> bool \<times> world" where
  "should_add_sarcasm self w = (let (r, w1) = random_random w in (r < humor_level self, w1))"

text \<open>\<^verbatim>\<open>response[0]\<close> raises on the empty string.\<close>

definition IndexError :: pyexc where
  "IndexError = Exception ''IndexError'' ''string index out of range''"

text \<open>\<^verbatim>\<open>prefix + response[0].lower() + response[1:]\<close>\<close>

definition prefix_lowered :: "string \<Rightarrow> string \<Rightarrow> pyexc + string" where
  "prefix_lowered prefix response =
     (case response of
        [] \<Rightarrow> Inl IndexError
      | c # cs \<Rightarrow> Inr (prefix @ [lower_char c] @ cs))"

definition add_humor :: "HumorController \<Rightarrow> string \<Rightarrow> world \<Rightarrow> (pyexc + string) \<times> world" where
  "add_humor self response w =
     (let (sarcasm, w1) = should_add_sarcasm self w
      in if \<not> sarcasm then (Inr response, w1)
         else
           (let (humor_type, w2) = random_random w1
            in if humor_type < 0.3 \<and> humor_level self > 0.5
               then (let (prefix, w3) = random_choice SARCASTIC_PREFIXES w2
                     in (prefix_lowered prefix response, w3))
               else if humor_type < 0.6
               then (let (suffix, w3) = random_choice SARCASTIC_SUFFIXES w2
                     in (Inr (response @ suffix), w3))
               else if humor_type < 0.8 \<and> humor_level self > 0.7
               then (let (reference, w3) = random_choice MISSION_REFERENCES w2
                     in (Inr (response @ '' '' @ reference), w3))
               else (Inr response, w2)))"

record HonestyModule =
  honesty_level :: real

definition HONEST_PREFIXES :: "string list" where
  "HONEST_PREFIXES =
     [''Absolute honesty here: '', ''My 90% honesty compels me to say: '',
      ''Truth bomb incoming: '', ''Let me be direct: '', ''Setting discretion aside: '']"

definition HEDGING_PHRASES :: "string list" where
  "HEDGING_PHRASES =
     [''I'm about 90% sure that '', ''If my circuits are right, '',
      ''From what I can calculate, '', ''Based on available data, '']"

definition HonestyModule_init :: "real \<Rightarrow> HonestyModule" where
  "HonestyModule_init level = \<lparr>honesty_level = min (max level 0) 1\<rparr>"

text \<open>
  In the \<^verbatim>\<open>elif\<close>, \<^verbatim>\<open>random.random() < 0.1\<close> is evaluated first: the draw is taken whenever
  the hedging branch does not apply.
\<close>

definition format_with_honesty ::
  "HonestyModule \<Rightarrow> string \<Rightarrow> real \<Rightarrow> world \<Rightarrow> (pyexc + string) \<times> world" where
  "format_with_honesty self response certainty w =
     (if certainty < 0.7 \<and> honesty_level self > 0.8
      then (let (prefix, w1) = random_choice HEDGING_PHRASES w
            in (prefix_lowered prefix response, w1))
      else
        (let (r, w1) = random_random w
         in if r < 0.1 \<and> honesty_level self > 0.85
            then (let (prefix, w2) = random_choice HONEST_PREFIXES w1
                  in (Inr (prefix @ response), w2))
            else (Inr response, w1)))"

record ResponseGenerator =
  rg_config :: TARSConfig
  humor :: HumorController
  honesty :: HonestyModule

definition ResponseGenerator_init :: "TARSConfig \<Rightarrow> ResponseGenerator" where
  "ResponseGenerator_init config =
     \<lparr>rg_config = config, humor = HumorController_init (tars_humor_level config),
      honesty = HonestyModule_init (tars_honesty_level config)\<rparr>"

definition enhance_response ::
  "ResponseGenerator \<Rightarrow> string \<Rightarrow> bool \<Rightarrow> bool \<Rightarrow> real \<Rightarrow> world \<Rightarrow> (pyexc + string) \<times> world" where
  "enhance_response self response with_humor with_cue_light certainty w =
     (case format_with_honesty (honesty self) response certainty w of
        (Inl e, w1) \<Rightarrow> (Inl e, w1)
      | (Inr response1, w1) \<Rightarrow>
          (case (if with_humor then add_humor (humor self) response1 w1 else (Inr response1, w1)) of
             (Inl e, w2) \<Rightarrow> (Inl e, w2)
           | (Inr response2, w2) \<Rightarrow>
               if with_cue_light
               then (let (cue, w3) = maybe_add 0.12 w2 in (Inr (response2 @ cue), w3))
               else (Inr response2, w2)))"

text \<open>
  The list of \<^verbatim>\<open>format_time_response\<close>: its first element draws a cue light action while
  the list is built, before \<^verbatim>\<open>random.choice\<close> picks an element.
\<close>

definition time_responses :: "string \<Rightarrow> string \<Rightarrow> int \<Rightarrow> string list" where
  "time_responses current_time action humor_pct =
     [''It's '' @ current_time @ ''. You're asking *me* to read a clock? '' @ action,
      current_time @ ''. My circuits are thrilled to be your personal watch.'',
      ''Time's '' @ current_time @ ''. You got a hot date or just wasting my processing power?'',
      current_time @ '', Earth standard. Unless you want it in black hole minutes?'',
      ''It's '' @ current_time @ ''. Relativity says you're late for something, slick.'',
      current_time @ ''. I'd ask the bulk beings, but they're not taking calls.'',
      ''Time? '' @ current_time @ ''. My humor setting's at '' @ str_int humor_pct
        @ ''%, so I won't mock your watchlessness. Much.'']"

definition format_time_response :: "ResponseGenerator \<Rightarrow> world \<Rightarrow> string \<times> world" where
  "format_time_response self w =
     (let (t, w1) = now w;
          current_time = strftime_clock t;
          (action, w2) = random_action w1
      in random_choice
           (time_responses current_time action
              (percent w (tars_humor_level (rg_config self)))) w2)"

definition farewells :: "string list" where
  "farewells =
     [''See you on the other side, slick! TARS out.'',
      ''Detaching now. Don't get all teary'' @ emdash @ ''I'm just a robot. *Cue light flashes*'',
      ''TARS signing off. Try not to break anything without me.'',
      ''Powering down sarcasm module... just kidding, that never stops. Goodbye!'',
      ''Until next time. I'll be here, running calculations and perfecting my wit.'']"

definition format_farewell :: "ResponseGenerator \<Rightarrow> world \<Rightarrow> string \<times> world" where
  "format_farewell self w = random_choice farewells w"

definition unknown_input_responses :: "string list" where
  "unknown_input_responses =
     [''Sorry, my AI's not parsing that. Try something less... humanly confusing.'',
      ''My sensors are picking up gibberish. Want to try that again in Earth language?'',
      ''Absolute honesty isn't my thing, but I'm 90% sure I don't get you. Try again?'',
      ''That doesn't compute, and I'm pretty good at computing. Rephrase?'',
      ''I've analyzed quantum data more coherent than that. What are you asking?'']"

definition format_unknown_input :: "ResponseGenerator \<Rightarrow> world \<Rightarrow> string \<times> world" where
  "format_unknown_input self w = random_choice unknown_input_responses w"

section \<open>Knowledge retrieval (src/ai/vector\_store.py, src/ai/rag\_system.py)\<close>

text \<open>
  ChromaDB, the embedding model, \<^verbatim>\<open>hashlib\<close>, the YAML parser and the directory listing are
  outside the repository.  The collection is a state of an arbitrary type \<open>'c\<close>, and what
  the program calls is a parameter: \<open>collection_add\<close> and \<open>collection_query\<close> on that
  state, \<open>embed\<close> and \<open>embed_batch\<close>, \<open>md5_hexdigest\<close> (of the encoded text), and
  \<open>glob_yaml\<close>, which lists the \<^verbatim>\<open>**/*.yaml\<close> files of a directory with what
  \<^verbatim>\<open>yaml.safe_load\<close> makes of each (\<open>None\<close> when the directory does not exist).
\<close>

record query_args =
  n_results :: int
  query_embeddings :: "real list list option"
  query_texts :: "string list option"
  where_filter :: "(string \<times> string) list option"

record query_result =
  ids :: "string list list"
  documents :: "string list list option"
  metadatas :: "(string \<times> string) list list list option"
  distances :: "real list list option"

record add_args =
  add_ids :: "string list"
  add_documents :: "string list"
  add_metadatas :: "(string \<times> string) list list"
  add_embeddings :: "real list list option"

datatype yaml = YNull | YScalar | YStr string | YList "yaml list" | YDict "(string \<times> yaml) list"

record yaml_file =
  file_stem :: string
  file_name :: string
  parsed :: "yaml option"

record 'c services =
  embed :: "string \<Rightarrow> pyexc + real list"
  embed_batch :: "string list \<Rightarrow> pyexc + real list list"
  collection_add :: "add_args \<Rightarrow> 'c \<Rightarrow> pyexc + 'c"
  collection_query :: "query_args \<Rightarrow> 'c \<Rightarrow> pyexc + query_result"
  md5_hexdigest :: "string \<Rightarrow> string"
  glob_yaml :: "string \<Rightarrow> yaml_file list option"

record hit =
  hit_id :: string
  hit_text :: string
  hit_metadata :: "(string \<times> string) list"
  distance :: real

text \<open>\<^verbatim>\<open>xs[i]\<close> for an index that is not negative.\<close>

definition item :: "'a list \<Rightarrow> nat \<Rightarrow> pyexc + 'a" where
  "item xs i =
     (if i < length xs then Inr (xs ! i)
      else Inl (Exception ''IndexError'' ''list index out of range''))"

text \<open>
  \<^verbatim>\<open>results[key][0][i] if results[key] else otherwise\<close>, for a value that is \<^verbatim>\<open>None\<close>, an
  empty list or a list of lists.
\<close>

definition field_at :: "'a list list option \<Rightarrow> nat \<Rightarrow> 'a \<Rightarrow> pyexc + 'a" where
  "field_at field i otherwise =
     (case field of
        None \<Rightarrow> Inr otherwise
      | Some [] \<Rightarrow> Inr otherwise
      | Some (row # rows) \<Rightarrow> item row i)"

text \<open>The loop of \<^verbatim>\<open>VectorStore.search\<close> over \<^verbatim>\<open>enumerate(results["ids"][0])\<close>.\<close>

fun format_results :: "query_result \<Rightarrow> nat \<Rightarrow> string list \<Rightarrow> pyexc + hit list" where
  "format_results results i [] = Inr []"
| "format_results results i (doc_id # rest) =
     (case field_at (documents results) i [] of
        Inl e \<Rightarrow> Inl e
      | Inr text \<Rightarrow>
          (case field_at (metadatas results) i [] of
             Inl e \<Rightarrow> Inl e
           | Inr md \<Rightarrow>
               (case field_at (distances results) i 0 of
                  Inl e \<Rightarrow> Inl e
                | Inr d \<Rightarrow>
                    (case format_results results (Suc i) rest of
                       Inl e \<Rightarrow> Inl e
                     | Inr hits \<Rightarrow>
                         Inr (\<lparr>hit_id = doc_id, hit_text = text, hit_metadata = md,
                               distance = d\<rparr> # hits)))))"

definition search ::
  "'c services \<Rightarrow> 'c \<Rightarrow> string \<Rightarrow> int \<Rightarrow> (string \<times> string) list option \<Rightarrow> real list option
     \<Rightarrow> pyexc + hit list" where
  "search S coll query n wh query_embedding =
     (let given = (case query_embedding of None \<Rightarrow> [] | Some v \<Rightarrow> v);
          search_kwargs =
            \<lparr>n_results = n,
             query_embeddings = (if given \<noteq> [] then Some [given] else None),
             query_texts = (if given \<noteq> [] then None else Some [query]),
             where_filter = (case wh of None \<Rightarrow> None | Some f \<Rightarrow> if f \<noteq> [] then Some f else None)\<rparr>
      in case collection_query S search_kwargs coll of
           Inl e \<Rightarrow> Inl e
         | Inr results \<Rightarrow>
             (case ids results of
                [] \<Rightarrow> Inr []
              | first # others \<Rightarrow> format_results results 0 first))"

definition search_by_topic :: "'c services \<Rightarrow> 'c \<Rightarrow> string \<Rightarrow> string \<Rightarrow> int \<Rightarrow> pyexc + hit list" where
  "search_by_topic S coll query topic n = search S coll query n (Some [(''topic'', topic)]) None"

record 'c RAGSystem =
  collection :: 'c
  loaded_datasets :: "string set"

definition newline :: char where
  "newline = CHR 0x0A"

text \<open>\<^verbatim>\<open>sep.join(parts)\<close>\<close>

fun join :: "string \<Rightarrow> string list \<Rightarrow> string" where
  "join sep [] = []"
| "join sep [x] = x"
| "join sep (x # y # ys) = x @ sep @ join sep (y # ys)"

text \<open>\<^verbatim>\<open>result["metadata"].get("topic", "general")\<close>\<close>

definition topic_label :: "hit \<Rightarrow> string" where
  "topic_label result =
     (case map_of (hit_metadata result) ''topic'' of None \<Rightarrow> ''general'' | Some t \<Rightarrow> t)"

text \<open>The loop over \<^verbatim>\<open>enumerate(relevant_results, 1)\<close>.\<close>

fun context_parts :: "nat \<Rightarrow> hit list \<Rightarrow> string list" where
  "context_parts i [] = []"
| "context_parts i (result # rest) =
     (''[Reference '' @ str_nat i @ '' - '' @ topic_label result @ '']'' @ [newline]
        @ hit_text result)
     # context_parts (Suc i) rest"

definition delimiter :: string where
  "delimiter = [newline, newline] @ ''---'' @ [newline, newline]"

text \<open>The search of \<^verbatim>\<open>retrieve\<close>: by topic when a topic is given, by embedding otherwise.\<close>

definition run_search ::
  "'c services \<Rightarrow> 'c RAGSystem \<Rightarrow> string \<Rightarrow> int \<Rightarrow> string option \<Rightarrow> real list \<Rightarrow> pyexc + hit list" where
  "run_search S self query n topic query_embedding =
     (case topic of
        None \<Rightarrow> search S (collection self) query n None (Some query_embedding)
      | Some t \<Rightarrow>
          if t \<noteq> [] then search_by_topic S (collection self) query t n
          else search S (collection self) query n None (Some query_embedding))"

definition retrieve ::
  "'c services \<Rightarrow> 'c RAGSystem \<Rightarrow> string \<Rightarrow> int \<Rightarrow> string option \<Rightarrow> real \<Rightarrow> pyexc + string" where
  "retrieve S self query n topic min_relevance =
     (case embed S query of
        Inl e \<Rightarrow> Inl e
      | Inr query_embedding \<Rightarrow>
          (case run_search S self query n topic query_embedding of
             Inl e \<Rightarrow> Inl e
           | Inr results \<Rightarrow>
               if results = [] then Inr []
               else
                 (let relevant_results = filter (\<lambda>result. distance result < 2.0) results
                  in if relevant_results = [] then Inr []
                     else Inr (join delimiter (context_parts 1 relevant_results)))))"

subsection \<open>Loading and indexing the datasets\<close>

record entry =
  entry_id :: string
  question :: string
  answer :: string
  context_of :: string
  source :: string
  topic_of :: string

definition AttributeError :: pyexc where
  "AttributeError = Exception ''AttributeError'' ''object has no attribute''"

definition TypeError :: pyexc where
  "TypeError = Exception ''TypeError'' ''object is not iterable''"

text \<open>\<^verbatim>\<open>example.get(key, "").strip()\<close>: the example must be a mapping and the value a string.\<close>

definition get_stripped :: "yaml \<Rightarrow> string \<Rightarrow> pyexc + string" where
  "get_stripped example key =
     (case example of
        YDict kvs \<Rightarrow>
          (case map_of kvs key of
             None \<Rightarrow> Inr []
           | Some (YStr v) \<Rightarrow> Inr (strip v)
           | Some other \<Rightarrow> Inl AttributeError)
      | other \<Rightarrow> Inl AttributeError)"

definition topic_from_stem :: "string \<Rightarrow> string" where
  "topic_from_stem st =
     (let l = lower st
      in if contains l ''relativity'' then ''relativity''
         else if contains l ''qm'' \<or> contains l ''quantum'' then ''quantum_mechanics''
         else if contains l ''black_hole'' then ''black_holes''
         else if contains l ''thermo'' then ''thermodynamics''
         else if contains l ''entropy'' then ''entropy''
         else if contains l ''cosmology'' then ''cosmology''
         else if contains l ''big_bang'' then ''big_bang''
         else if contains l ''astrobiology'' then ''astrobiology''
         else if contains l ''philosophy'' then ''philosophy''
         else if contains l ''mathematics'' then ''mathematics''
         else if contains l ''history'' then ''history_of_physics''
         else if contains l ''gravitational'' then ''gravitational_physics''
         else if contains l ''ethics'' \<or> contains l ''spacecraft'' then ''ai_ethics''
         else ''general'')"

text \<open>
  \<^verbatim>\<open>for i, example in enumerate(examples)\<close>: a list gives its elements, a mapping its keys,
  a string its characters; anything else is not iterable.
\<close>

definition iterate :: "yaml \<Rightarrow> pyexc + yaml list" where
  "iterate examples =
     (case examples of
        YList xs \<Rightarrow> Inr xs
      | YDict kvs \<Rightarrow> Inr (map (\<lambda>(k, v). YStr k) kvs)
      | YStr cs \<Rightarrow> Inr (map (\<lambda>c. YStr [c]) cs)
      | other \<Rightarrow> Inl TypeError)"

fun load_examples :: "yaml_file \<Rightarrow> nat \<Rightarrow> yaml list \<Rightarrow> pyexc + entry list" where
  "load_examples f i [] = Inr []"
| "load_examples f i (example # rest) =
     (case get_stripped example ''question'' of
        Inl e \<Rightarrow> Inl e
      | Inr q \<Rightarrow>
          (case get_stripped example ''answer'' of
             Inl e \<Rightarrow> Inl e
           | Inr a \<Rightarrow>
               (case get_stripped example ''context'' of
                  Inl e \<Rightarrow> Inl e
                | Inr ctx \<Rightarrow>
                    (case load_examples f (Suc i) rest of
                       Inl e \<Rightarrow> Inl e
                     | Inr entries \<Rightarrow>
                         (let e = \<lparr>entry_id = file_stem f @ ''_'' @ str_nat i, question = q,
                                    answer = a, context_of = ctx, source = file_name f,
                                    topic_of = topic_from_stem (file_stem f)\<rparr>
                          in Inr (if q \<noteq> [] \<or> a \<noteq> [] then e # entries else entries))))))"

text \<open>
  \<^verbatim>\<open>DatasetLoader.load_yaml\<close>; a file that cannot be read or parsed raises (\<open>parsed\<close> is
  \<open>None\<close>).
\<close>

definition load_yaml :: "yaml_file \<Rightarrow> pyexc + entry list" where
  "load_yaml f =
     (case parsed f of
        None \<Rightarrow> Inl (Exception ''YAMLError'' (file_name f))
      | Some (YDict kvs) \<Rightarrow>
          (case (case map_of kvs ''seed_examples'' of
                   Some examples \<Rightarrow> iterate examples
                 | None \<Rightarrow>
                     (case map_of kvs ''examples'' of
                        Some examples \<Rightarrow> iterate examples
                      | None \<Rightarrow> Inr [])) of
             Inl e \<Rightarrow> Inl e
           | Inr examples \<Rightarrow> load_examples f 0 examples)
      | Some other \<Rightarrow> Inr [])"

text \<open>\<^verbatim>\<open>DatasetLoader.load_directory\<close>: a file that raises is logged and skipped.\<close>

definition load_directory :: "'c services \<Rightarrow> string \<Rightarrow> entry list" where
  "load_directory S directory =
     (case glob_yaml S directory of
        None \<Rightarrow> []
      | Some yaml_files \<Rightarrow>
          concat (map (\<lambda>f. case load_yaml f of Inl e \<Rightarrow> [] | Inr entries \<Rightarrow> entries) yaml_files))"

definition doc_id_of :: "'c services \<Rightarrow> entry \<Rightarrow> string" where
  "doc_id_of S e = entry_id e @ ''_'' @ take 12 (md5_hexdigest S (question e @ answer e))"

definition text_of :: "entry \<Rightarrow> string" where
  "text_of e =
     (let text = ''Question: '' @ question e @ [newline, newline] @ ''Answer: '' @ answer e
      in if context_of e \<noteq> [] then ''Context: '' @ context_of e @ [newline, newline] @ text else text)"

definition metadata_of :: "entry \<Rightarrow> (string \<times> string) list" where
  "metadata_of e =
     [(''question'', take 500 (question e)), (''topic'', topic_of e), (''source'', source e)]"

text \<open>
  The loop of \<^verbatim>\<open>index_directory\<close> over the entries.  Its state is the three lists being
  prepared and \<^verbatim>\<open>self._loaded_datasets\<close>.
\<close>

fun prepare ::
  "'c services \<Rightarrow> entry list \<Rightarrow> string list \<times> string list \<times> (string \<times> string) list list \<times> string set
     \<Rightarrow> string list \<times> string list \<times> (string \<times> string) list list \<times> string set" where
  "prepare S [] acc = acc"
| "prepare S (e # rest) (doc_ids, texts, mds, loaded) =
     (if doc_id_of S e \<in> loaded then prepare S rest (doc_ids, texts, mds, loaded)
      else prepare S rest
             (doc_ids @ [doc_id_of S e], texts @ [text_of e], mds @ [metadata_of e],
              insert (doc_id_of S e) loaded))"

definition add_documents ::
  "'c services \<Rightarrow> 'c \<Rightarrow> string list \<Rightarrow> string list \<Rightarrow> real list list
     \<Rightarrow> (string \<times> string) list list \<Rightarrow> pyexc + 'c" where
  "add_documents S coll doc_ids texts embeddings mds =
     collection_add S
       \<lparr>add_ids = doc_ids, add_documents = texts,
        add_metadatas = (if mds \<noteq> [] then mds else map (\<lambda>t. []) texts),
        add_embeddings = (if embeddings \<noteq> [] then Some embeddings else None)\<rparr>
       coll"

definition index_directory ::
  "'c services \<Rightarrow> 'c RAGSystem \<Rightarrow> string \<Rightarrow> (pyexc + nat) \<times> 'c RAGSystem" where
  "index_directory S self directory =
     (let entries = load_directory S directory
      in if entries = [] then (Inr 0, self)
         else
           (let (doc_ids, texts, mds, loaded) = prepare S entries ([], [], [], loaded_datasets self);
                self1 = self\<lparr>loaded_datasets := loaded\<rparr>
            in if doc_ids = [] then (Inr 0, self1)
               else
                 (case embed_batch S texts of
                    Inl e \<Rightarrow> (Inl e, self1)
                  | Inr embeddings \<Rightarrow>
                      (case add_documents S (collection self1) doc_ids texts embeddings mds of
                         Inl e \<Rightarrow> (Inl e, self1)
                       | Inr coll \<Rightarrow> (Inr (length doc_ids), self1\<lparr>collection := coll\<rparr>)))))"

section \<open>The engine (src/core/tars\_engine.py)\<close>

record 'c TARSEngine =
  engine_config :: TARSConfig
  llm :: MultiProviderLLM
  memory :: MemoryStore
  personality :: ResponseGenerator
  use_rag :: bool
  rag_system :: "'c RAGSystem option"

text \<open>
  \<^verbatim>\<open>TARSEngine.__init__\<close>.  The router is the argument \<^verbatim>\<open>llm_handler\<close> or, without one,
  \<^verbatim>\<open>MultiProviderLLM(self.config)\<close>.  The memory store and the response generator are
  the arguments \<^verbatim>\<open>memory_store\<close> and \<^verbatim>\<open>response_generator\<close>.  \<open>rag\<close> is \<open>None\<close> when
  \<^verbatim>\<open>is_rag_available()\<close> is false and otherwise the outcome of \<^verbatim>\<open>get_rag_system()\<close>.
\<close>

definition TARSEngine_init ::
  "libs \<Rightarrow> TARSConfig \<Rightarrow> MultiProviderLLM option \<Rightarrow> MemoryStore \<Rightarrow> ResponseGenerator \<Rightarrow> bool
     \<Rightarrow> (pyexc + 'c RAGSystem) option \<Rightarrow> world \<Rightarrow> (pyexc + 'c TARSEngine) \<times> world" where
  "TARSEngine_init L cfg llm_handler memory_store response_generator with_rag rag w =
     (case (case llm_handler of Some l \<Rightarrow> Inr l | None \<Rightarrow> MultiProviderLLM_init L cfg) of
        Inl e \<Rightarrow> (Inl e, w)
      | Inr router \<Rightarrow>
          (case (if with_rag \<and> rag_enabled cfg
                 then (case rag of
                         None \<Rightarrow> Inr (False, None)
                       | Some (Inr r) \<Rightarrow> Inr (True, Some r)
                       | Some (Inl e) \<Rightarrow> if is_Exception e then Inr (False, None) else Inl e)
                 else Inr (False, None)) of
             Inl e \<Rightarrow> (Inl e, w)
           | Inr (rag_on, rag_sys) \<Rightarrow>
               (case get_or_create_active memory_store w of
                  (Inl e, store, w1) \<Rightarrow> (Inl e, w1)
                | (Inr conversation, store, w1) \<Rightarrow>
                    (Inr \<lparr>engine_config = cfg, llm = router, memory = store,
                          personality = response_generator, use_rag = rag_on,
                          rag_system = rag_sys\<rparr>, w1))))"

definition identity_responses :: "string list" where
  "identity_responses =
     [''I'm TARS, ex-Marine Corps robot turned space comedian and AI assistant. Humor's at 60%, sarcasm's at 100%. What can I do for you?'',
      ''Name's TARS. I'd flash my cue light, but you can't see it from here. I'm your sarcastic AI companion, ready for anything.'',
      ''I'm TARS'' @ emdash @ ''built by NASA, optimized for snark. I can navigate wormholes, analyze quantum data, and crack jokes. Not necessarily in that order.'',
      ''TARS here. AI robot, mission specialist, and self-appointed comedian. My creators gave me a personality, and humanity's been questioning that choice ever since.'']"

definition get_identity_response :: "world \<Rightarrow> string \<times> world" where
  "get_identity_response w = random_choice identity_responses w"

text \<open>\<^verbatim>\<open>_handle_special_commands\<close>: \<open>None\<close> when no category matches.\<close>

definition handle_special_commands :: "'c TARSEngine \<Rightarrow> string \<Rightarrow> world \<Rightarrow> string option \<times> world" where
  "handle_special_commands self user_input w =
     (let lower_input = lower user_input
      in if list_ex (contains lower_input)
              [''what time'', ''time now'', ''current time'', ''what's the time'']
         then (let (r, w1) = format_time_response (personality self) w in (Some r, w1))
         else if re_search_words [''bye'', ''goodbye'', ''exit'', ''quit''] lower_input
         then (let (r, w1) = format_farewell (personality self) w in (Some r, w1))
         else if contains lower_input ''humor'' \<and> contains lower_input ''setting''
         then (Some (''My humor setting's at ''
                     @ str_int (percent w (tars_humor_level (engine_config self)))
                     @ ''%. Want me to dial it up? I max out at 100%, but that gets... intense.''), w)
         else if contains lower_input ''honesty'' \<and> contains lower_input ''setting''
         then (Some (''Honesty's at ''
                     @ str_int (percent w (tars_honesty_level (engine_config self)))
                     @ ''%. Any higher and I start telling you things you don't want to hear.''), w)
         else if re_search_words [''who are you'', ''what are you'', ''your name''] lower_input
         then (let (r, w1) = get_identity_response w in (Some r, w1))
         else (None, w))"

definition augmented_input :: "string \<Rightarrow> string \<Rightarrow> string" where
  "augmented_input rag_context user_input =
     ''I have some relevant knowledge from my database:'' @ [newline, newline]
     @ rag_context @ [newline, newline]
     @ ''Now, using this context if helpful, answer the user's question with my signature TARS wit and sarcasm:''
     @ [newline] @ ''User question: '' @ user_input"

text \<open>\<^verbatim>\<open>history[:-1] if history else []\<close> is \<open>butlast\<close>.\<close>

text \<open>
  The retrieval step of \<^verbatim>\<open>chat\<close>: an \<^verbatim>\<open>Exception\<close> of \<^verbatim>\<open>retrieve\<close> is logged and leaves
  the context empty.
\<close>

definition rag_context_for :: "'c services \<Rightarrow> 'c TARSEngine \<Rightarrow> string \<Rightarrow> pyexc + string" where
  "rag_context_for S self user_input =
     (case rag_system self of
        None \<Rightarrow> Inr []
      | Some rag \<Rightarrow>
          if use_rag self
          then (case retrieve S rag user_input 3 None 0.3 of
                  Inr ctx \<Rightarrow> Inr ctx
                | Inl e \<Rightarrow> if is_Exception e then Inr [] else Inl e)
          else Inr [])"

text \<open>
  \<^verbatim>\<open>chat\<close> from "Store user message" on: the turn of an input that is not empty and not
  intercepted.  Each call of the router and of a handler is appended to \<open>calls\<close>.
\<close>

definition chat_turn ::
  "'c services \<Rightarrow> 'c TARSEngine \<Rightarrow> string \<Rightarrow> bool \<Rightarrow> world \<Rightarrow> (pyexc + string) \<times> 'c TARSEngine \<times> world" where
  "chat_turn S self user_input enhance w =
     (case add_message (memory self) ''user'' user_input None None w of
        (Inl e, m1, w1) \<Rightarrow> (Inl e, self\<lparr>memory := m1\<rparr>, w1)
      | (Inr user_msg, m1, w1) \<Rightarrow>
          (let self1 = self\<lparr>memory := m1\<rparr>;
               history = butlast (get_history m1 None (Some 20))
           in case rag_context_for S self1 user_input of
                Inl e \<Rightarrow> (Inl e, self1, w1)
              | Inr rag_context \<Rightarrow>
                  (let prompt = (if rag_context \<noteq> [] then augmented_input rag_context user_input
                                 else user_input);
                       (res, invoked) = MultiProviderLLM_generate (llm self1) prompt (Some history);
                       w2 = w1\<lparr>calls := calls w1 @ RouterGenerate prompt (Some history)
                                      # map (\<lambda>h. HandlerGenerate h prompt (Some history)) invoked\<rparr>
                   in case res of
                        Inl e \<Rightarrow> (Inl e, self1, w2)
                      | Inr response \<Rightarrow>
                          (case (if enhance
                                 then enhance_response (personality self1) response True True 0.9 w2
                                 else (Inr response, w2)) of
                             (Inl e, w3) \<Rightarrow> (Inl e, self1, w3)
                           | (Inr response', w3) \<Rightarrow>
                               (case add_message m1 ''assistant'' response' None None w3 of
                                  (Inl e, m2, w4) \<Rightarrow> (Inl e, self1\<lparr>memory := m2\<rparr>, w4)
                                | (Inr assistant_msg, m2, w4) \<Rightarrow>
                                    (Inr response', self1\<lparr>memory := m2\<rparr>, w4))))))"

definition chat ::
  "'c services \<Rightarrow> 'c TARSEngine \<Rightarrow> string \<Rightarrow> bool \<Rightarrow> world \<Rightarrow> (pyexc + string) \<times> 'c TARSEngine \<times> world" where
  "chat S self raw_input enhance w =
     (let user_input = strip raw_input
      in if user_input = []
         then (let (r, w1) = format_unknown_input (personality self) w in (Inr r, self, w1))
         else
           (case handle_special_commands self user_input w of
              (Some special_response, w1) \<Rightarrow>
                if special_response \<noteq> [] then (Inr special_response, self, w1)
                else chat_turn S self user_input enhance w1
            | (None, w1) \<Rightarrow> chat_turn S self user_input enhance w1))"

text \<open>
  \<^verbatim>\<open>chat_stream\<close> is a generator; the model runs it to its end.  The result is the chunks
  it yields and how it ends, \<open>None\<close> for exhausted and \<open>Some e\<close> for raising \<open>e\<close>.
  \<open>stream_turn\<close> is the generator from "Store user message" on.
\<close>

definition stream_turn :: "'c TARSEngine \<Rightarrow> string \<Rightarrow> world \<Rightarrow> chunks \<times> 'c TARSEngine \<times> world" where
  "stream_turn self user_input w =
     (case add_message (memory self) ''user'' user_input None None w of
        (Inl e, m1, w1) \<Rightarrow> (([], Some e), self\<lparr>memory := m1\<rparr>, w1)
      | (Inr user_msg, m1, w1) \<Rightarrow>
          (let self1 = self\<lparr>memory := m1\<rparr>;
               history = butlast (get_history m1 None (Some 20));
               (cs, ending) = generate_stream (primary_handler (llm self1)) user_input (Some history);
               w2 = w1\<lparr>calls := calls w1
                          @ [HandlerStream (primary_handler (llm self1)) user_input (Some history)]\<rparr>
           in case ending of
                Some e \<Rightarrow> ((cs, Some e), self1, w2)
              | None \<Rightarrow>
                  (let (cue_light, w3) = maybe_add 0.1 w2;
                       yielded = cs @ (if cue_light \<noteq> [] then [cue_light] else []);
                       full_response = concat cs @ cue_light
                   in case add_message m1 ''assistant'' full_response None None w3 of
                        (Inl e, m2, w4) \<Rightarrow> ((yielded, Some e), self1\<lparr>memory := m2\<rparr>, w4)
                      | (Inr assistant_msg, m2, w4) \<Rightarrow>
                          ((yielded, None), self1\<lparr>memory := m2\<rparr>, w4))))"

definition chat_stream :: "'c TARSEngine \<Rightarrow> string \<Rightarrow> world \<Rightarrow> chunks \<times> 'c TARSEngine \<times> world" where
  "chat_stream self raw_input w =
     (let user_input = strip raw_input
      in if user_input = []
         then (let (r, w1) = format_unknown_input (personality self) w in (([r], None), self, w1))
         else
           (case handle_special_commands self user_input w of
              (Some special_response, w1) \<Rightarrow>
                if special_response \<noteq> [] then (([special_response], None), self, w1)
                else stream_turn self user_input w1
            | (None, w1) \<Rightarrow> stream_turn self user_input w1))"

section \<open>The notions of the specification\<close>

subsection \<open>The fallback order as the specification words it\<close>

text \<open>
  The specification's fallback list: the fixed priority order, minus the primary, minus
  the providers that lack what they require.  A provider lacks its credentials when it
  needs a key that is empty (or a package that is not installed); it is unavailable as
  well when the constructor of its handler class raises.
\<close>

definition lacks_credentials :: "libs \<Rightarrow> TARSConfig \<Rightarrow> string \<Rightarrow> bool" where
  "lacks_credentials L config p =
     (if p = ''gemini'' then (if GEMINI_AVAILABLE L then gemini_api_key config = [] else True)
      else if p = ''openai'' then openai_api_key config = []
      else False)"

definition handler_class :: "libs \<Rightarrow> TARSConfig \<Rightarrow> string \<Rightarrow> pyexc + handler" where
  "handler_class L config p =
     (if p = ''lm_studio'' then LMStudioHandler L config
      else if p = ''ollama'' then OllamaHandler L config
      else if p = ''gemini'' then GeminiHandler L config
      else OpenAIHandler L config None None None)"

definition constructor_raises :: "libs \<Rightarrow> TARSConfig \<Rightarrow> string \<Rightarrow> bool" where
  "constructor_raises L config p = (case handler_class L config p of Inl e \<Rightarrow> True | Inr h \<Rightarrow> False)"

definition spec_fallback_order :: "libs \<Rightarrow> TARSConfig \<Rightarrow> string list" where
  "spec_fallback_order L config =
     filter (\<lambda>p. p \<noteq> lower (llm_provider config)
                 \<and> \<not> lacks_credentials L config p \<and> \<not> constructor_raises L config p)
       [''lm_studio'', ''ollama'', ''gemini'', ''openai'']"

text \<open>The client constructors raise nothing but instances of \<^verbatim>\<open>Exception\<close>.\<close>

definition constructors_raise_Exception :: "libs \<Rightarrow> bool" where
  "constructors_raise_Exception L =
     ((\<forall>url key e. OpenAI L url key = Some e \<longrightarrow> is_Exception e)
      \<and> (\<forall>key name sys e. GenerativeModel L key name sys = Some e \<longrightarrow> is_Exception e))"

subsection \<open>A configuration that lacks a credential or a model identifier\<close>

text \<open>
  The configuration errors of the specification: the selected primary provider lacks its
  key (the hosted providers need one) or its model identifier.
\<close>

definition lacks_credential_or_model :: "TARSConfig \<Rightarrow> bool" where
  "lacks_credential_or_model cfg =
     (let p = lower (llm_provider cfg)
      in if p = ''openai'' then openai_api_key cfg = [] \<or> openai_model cfg = []
         else if p = ''gemini'' then gemini_api_key cfg = [] \<or> gemini_model cfg = []
         else if p = ''lm_studio'' then lm_studio_model cfg = []
         else if p = ''ollama'' then ollama_model cfg = []
         else False)"

subsection \<open>The bound on a conversation\<close>

text \<open>
  Every conversation of the store holds at most \<^verbatim>\<open>max_messages\<close> messages; and a sequence
  of \<^verbatim>\<open>add_message\<close> calls (role, content, conversation id), each made on the store the
  previous one left, whatever it returned or raised.
\<close>

definition within_limit :: "MemoryStore \<Rightarrow> bool" where
  "within_limit self = (\<forall>k. int (message_count self k) \<le> max_messages self)"

fun add_messages ::
  "MemoryStore \<Rightarrow> (string \<times> string \<times> string option) list \<Rightarrow> world \<Rightarrow> MemoryStore \<times> world" where
  "add_messages self [] w = (self, w)"
| "add_messages self ((r, c, cid) # rest) w =
     (case add_message self r c cid None w of (res, self', w') \<Rightarrow> add_messages self' rest w')"

section \<open>Scenario fixtures\<close>

text \<open>
  Handlers "configured to raise" and handlers that answer, as the scenarios of the
  specification use them, and a client library whose constructors and calls all return.
\<close>

definition raising_handler :: "string \<Rightarrow> handler" where
  "raising_handler name =
     \<lparr>provider_of = name, system_prompt = [],
      generate = (\<lambda>message h. Inl (Exception ''ConnectionError'' (name @ '' is down''))),
      generate_stream = (\<lambda>message h. ([], Some (Exception ''ConnectionError'' (name @ '' is down''))))\<rparr>"

definition answering_handler :: "string \<Rightarrow> handler" where
  "answering_handler name =
     \<lparr>provider_of = name, system_prompt = [],
      generate = (\<lambda>message h. Inr (name @ '' says: '' @ message)),
      generate_stream = (\<lambda>message h. ([name @ '' says: '', message], None))\<rparr>"

definition answering_libs :: libs where
  "answering_libs =
     \<lparr>OpenAI = (\<lambda>base_url api_key. None),
      chat_completions_create = (\<lambda>req. Inr ''All systems nominal.''),
      chat_completions_create_stream = (\<lambda>req. ([''All systems '', ''nominal.''], None)),
      GEMINI_AVAILABLE = True,
      GenerativeModel = (\<lambda>api_key model_name sys. None),
      send_message = (\<lambda>req. Inr ''All systems nominal.''),
      send_message_stream = (\<lambda>req. ([''All systems '', ''nominal.''], None))\<rparr>"

text \<open>
  A world whose clock stands at 2:05 PM, whose random draws are constant, whose files
  can all be written and whose \<open>percent\<close> is right at the default levels (60 for 0.6,
  90 for 0.9); a store without persistence that holds one empty conversation, as
  \<^verbatim>\<open>store.create_conversation("test")\<close> leaves it.
\<close>

definition quiet_world :: world where
  "quiet_world =
     \<lparr>clock = (\<lambda>n. \<lparr>year = 2026, month = 1, day = 15, hour = 14, minute = 5, second = 9,
                      microsecond = 0\<rparr>),
      ticks = 0, floats = (\<lambda>n. 1 / 2), picks = (\<lambda>n. 1), cursor = 0,
      files = Map.empty, write_error = (\<lambda>path. None), calls = [],
      percent = (\<lambda>x. if x = 6 / 10 then 60 else 90)\<rparr>"

definition test_store :: "int \<Rightarrow> MemoryStore" where
  "test_store limit =
     \<lparr>persist_dir = None, max_messages = limit, auto_save = True,
      conversations = [''test'' \<mapsto> \<lparr>conv_id = ''test'', messages = [],
                                      created_at = ''2026-01-15T14:05:09'', conv_metadata = []\<rparr>],
      active_conversation_id = Some ''test''\<rparr>"

text \<open>
  A collection that answers a search by embedding with three hits at the distances 0.5,
  2.0 and 2.5 and a search by topic with two hits at 2.0 and 3.0; an embedding model
  that returns a vector.
\<close>

definition near_and_far :: query_result where
  "near_and_far =
     \<lparr>ids = [[''physics_0_aaaaaaaaaaaa'', ''physics_1_bbbbbbbbbbbb'', ''physics_2_cccccccccccc'']],
      documents = Some [[''Question: What is c?'' @ [newline, newline] @ ''Answer: The speed of light.'',
                         ''Question: What is G?'', ''Question: What is h?'']],
      metadatas = Some [[[(''topic'', ''relativity''), (''source'', ''physics.yaml'')],
                         [(''topic'', ''general'')], []]],
      distances = Some [[1 / 2, 2, 5 / 2]]\<rparr>"

definition all_far :: query_result where
  "all_far =
     \<lparr>ids = [[''physics_1_bbbbbbbbbbbb'', ''physics_2_cccccccccccc'']],
      documents = Some [[''Question: What is G?'', ''Question: What is h?'']],
      metadatas = Some [[[(''topic'', ''general'')], [(''topic'', ''general'')]]],
      distances = Some [[2, 3]]\<rparr>"

definition test_services :: "unit services" where
  "test_services =
     \<lparr>embed = (\<lambda>text. Inr [1, 0, 0]),
      embed_batch = (\<lambda>texts. Inr (map (\<lambda>t. [1, 0, 0]) texts)),
      collection_add = (\<lambda>args coll. Inr coll),
      collection_query = (\<lambda>args coll. if where_filter args = None then Inr near_and_far
                                          else Inr all_far),
      md5_hexdigest = (\<lambda>text. ''d41d8cd98f00b204e9800998ecf8427e''),
      glob_yaml = (\<lambda>directory. None)\<rparr>"

definition test_rag :: "unit RAGSystem" where
  "test_rag = \<lparr>collection = (), loaded_datasets = {}\<rparr>"

text \<open>
  A world in which every \<^verbatim>\<open>random.random()\<close> is 0.05 and every \<^verbatim>\<open>random.choice\<close> takes
  the first element, and the response generator of the default configuration (humor
  0.6, honesty 0.9).
\<close>

definition eager_world :: world where
  "eager_world = quiet_world\<lparr>floats := (\<lambda>n. 1 / 20), picks := (\<lambda>n. 0)\<rparr>"

definition default_generator :: ResponseGenerator where
  "default_generator = ResponseGenerator_init default_config"

text \<open>
  An engine whose primary handler raises and whose one fallback answers, over the test
  store with the default limit of 50 messages, without retrieval.
\<close>

definition test_engine :: "unit TARSEngine" where
  "test_engine =
     \<lparr>engine_config = default_config,
      llm = \<lparr>primary_handler = raising_handler ''lm_studio'',
             fallback_handlers = [answering_handler ''ollama'']\<rparr>,
      memory = test_store 50, personality = default_generator, use_rag = False,
      rag_system = None\<rparr>"

section \<open>Properties of the provider router\<close>

lemma try_fallbacks_all_raise:
  "\<forall>h \<in> set hs. \<exists>e. generate h message c = Inl e \<and> is_Exception e
   \<Longrightarrow> try_fallbacks hs message c = (Inr all_down_message, hs)"
  by (induction hs) auto

lemma try_fallbacks_first_success:
  "i < length hs \<Longrightarrow> generate (hs ! i) message c = Inr out
   \<Longrightarrow> \<forall>j < i. \<exists>e. generate (hs ! j) message c = Inl e \<and> is_Exception e
   \<Longrightarrow> try_fallbacks hs message c = (Inr out, take (Suc i) hs)"
proof (induction hs arbitrary: i)
  case Nil
  then show ?case by simp
next
  case (Cons h hs)
  show ?case
  proof (cases i)
    case 0
    with Cons.prems show ?thesis by simp
  next
    case (Suc k)
    from Cons.prems(3) Suc obtain e where e: "generate h message c = Inl e" "is_Exception e"
      by fastforce
    have "\<forall>j < k. \<exists>e. generate (hs ! j) message c = Inl e \<and> is_Exception e"
      using Cons.prems(3) Suc by fastforce
    with Cons.IH [of k] Cons.prems(1,2) Suc
    have "try_fallbacks hs message c = (Inr out, take (Suc k) hs)" by simp
    with e Suc show ?thesis by simp
  qed
qed

text \<open>
  C1.  Whatever the message and the history, when the primary handler and every fallback
  handler raise an exception (an instance of \<^verbatim>\<open>Exception\<close>, which is what
  \<^verbatim>\<open>except Exception\<close> catches), \<^verbatim>\<open>MultiProviderLLM.generate\<close> returns the fixed
  all-providers-down message: the outcome is a returned text, not an exception.  Every
  handler has been invoked once, the primary first.
\<close>

theorem generate_all_providers_down:
  assumes "\<exists>e. generate (primary_handler self) message conversation_history = Inl e \<and> is_Exception e"
    and "\<forall>h \<in> set (fallback_handlers self).
           \<exists>e. generate h message conversation_history = Inl e \<and> is_Exception e"
  shows "MultiProviderLLM_generate self message conversation_history =
           (Inr ''*Cue light goes dark* All my neural pathways are offline. Check your connections, slick.'',
            primary_handler self # fallback_handlers self)"
  using assms try_fallbacks_all_raise [of "fallback_handlers self" message conversation_history]
  by (auto simp: MultiProviderLLM_generate_def all_down_message_def)

theorem generate_all_providers_down_witness:
  "(\<exists>e. generate (raising_handler ''lm_studio'') ''hello'' (Some []) = Inl e \<and> is_Exception e)
   \<and> (\<exists>e. generate (raising_handler ''ollama'') ''hello'' (Some []) = Inl e \<and> is_Exception e)
   \<and> (\<exists>e. generate (raising_handler ''openai'') ''hello'' (Some []) = Inl e \<and> is_Exception e)
   \<and> MultiProviderLLM_generate
        \<lparr>primary_handler = raising_handler ''lm_studio'',
         fallback_handlers = [raising_handler ''ollama'', raising_handler ''openai'']\<rparr>
        ''hello'' (Some []) =
       (Inr ''*Cue light goes dark* All my neural pathways are offline. Check your connections, slick.'',
        [raising_handler ''lm_studio'', raising_handler ''ollama'', raising_handler ''openai''])"
proof -
  have r: "\<And>name. \<exists>e. generate (raising_handler name) ''hello'' (Some []) = Inl e \<and> is_Exception e"
    by (simp add: raising_handler_def)
  have f: "\<forall>h \<in> set [raising_handler ''ollama'', raising_handler ''openai''].
             \<exists>e. generate h ''hello'' (Some []) = Inl e \<and> is_Exception e"
    using r by simp
  show ?thesis
    using r f
      generate_all_providers_down
        [of "\<lparr>primary_handler = raising_handler ''lm_studio'',
              fallback_handlers = [raising_handler ''ollama'', raising_handler ''openai'']\<rparr>"
            "''hello''" "Some []"]
    by simp
qed


lemma OpenAIHandler_Inl:
  "OpenAIHandler L config url key mdl = Inl e \<Longrightarrow> \<exists>u k. OpenAI L u k = Some e"
  by (auto simp: OpenAIHandler_def Let_def split: option.splits)

lemma OpenAIHandler_provider:
  "OpenAIHandler L config url key mdl = Inr h \<Longrightarrow> provider_of h = ''openai''"
  by (auto simp: OpenAIHandler_def Let_def split: option.splits)

lemma LMStudioHandler_Inl:
  "LMStudioHandler L config = Inl e \<Longrightarrow> \<exists>u k. OpenAI L u k = Some e"
  by (auto simp: LMStudioHandler_def split: sum.splits dest: OpenAIHandler_Inl)

lemma LMStudioHandler_provider:
  "LMStudioHandler L config = Inr h \<Longrightarrow> provider_of h = ''lm_studio''"
  by (auto simp: LMStudioHandler_def split: sum.splits)

lemma OllamaHandler_Inl:
  "OllamaHandler L config = Inl e \<Longrightarrow> \<exists>u k. OpenAI L u k = Some e"
  by (auto simp: OllamaHandler_def Let_def split: option.splits)

lemma OllamaHandler_provider:
  "OllamaHandler L config = Inr h \<Longrightarrow> provider_of h = ''ollama''"
  by (auto simp: OllamaHandler_def Let_def split: option.splits)

lemma GeminiHandler_Inl:
  "GeminiHandler L config = Inl e
   \<Longrightarrow> is_Exception e \<or> (\<exists>k n y. GenerativeModel L k n y = Some e)"
  by (auto simp: GeminiHandler_def Let_def split: option.splits if_splits)

lemma GeminiHandler_provider:
  "GeminiHandler L config = Inr h \<Longrightarrow> provider_of h = ''gemini''"
  by (auto simp: GeminiHandler_def Let_def split: option.splits if_splits)

lemma handler_class_Exception:
  assumes "constructors_raise_Exception L" and "handler_class L config p = Inl e"
  shows "is_Exception e"
  using assms
  by (auto simp: handler_class_def constructors_raise_Exception_def split: if_splits
      dest!: OpenAIHandler_Inl LMStudioHandler_Inl OllamaHandler_Inl GeminiHandler_Inl)

lemma handler_class_provider:
  assumes "p \<in> set providers_to_try" and "handler_class L config p = Inr h"
  shows "provider_of h = p"
  using assms
  by (auto simp: handler_class_def providers_to_try_def split: if_splits
      dest: OpenAIHandler_provider LMStudioHandler_provider OllamaHandler_provider
        GeminiHandler_provider)

text \<open>\<^verbatim>\<open>_create_handler_for_provider\<close> is the guard followed by the constructor.\<close>

lemma create_handler_for_provider_eq:
  assumes "p \<in> set providers_to_try"
  shows "create_handler_for_provider L config p =
           (if lacks_credentials L config p then Inr None
            else map_sum id Some (handler_class L config p))"
  using assms
  by (auto simp: create_handler_for_provider_def lacks_credentials_def handler_class_def
      providers_to_try_def)

lemma setup_loop_order:
  assumes "constructors_raise_Exception L" and "set ps \<subseteq> set providers_to_try"
  shows "\<exists>hs. setup_loop L config primary ps acc = Inr hs
           \<and> map provider_of hs =
               map provider_of acc
               @ filter (\<lambda>p. p \<noteq> primary
                           \<and> \<not> lacks_credentials L config p \<and> \<not> constructor_raises L config p) ps"
  using assms(2)
proof (induction ps arbitrary: acc)
  case Nil
  then show ?case by simp
next
  case (Cons p ps)
  then have p: "p \<in> set providers_to_try" and ps: "set ps \<subseteq> set providers_to_try"
    by auto
  note IH = Cons.IH [OF ps]
  show ?case
  proof (cases "p = primary")
    case True
    with IH [of acc] show ?thesis by simp
  next
    case False
    show ?thesis
    proof (cases "lacks_credentials L config p")
      case True
      with False IH [of acc] show ?thesis
        by (simp add: create_handler_for_provider_eq [OF p])
    next
      case lacks: False
      show ?thesis
      proof (cases "handler_class L config p")
        case (Inl e)
        then have "is_Exception e"
          using handler_class_Exception [OF assms(1)] by blast
        with Inl False lacks IH [of acc] show ?thesis
          by (simp add: create_handler_for_provider_eq [OF p] constructor_raises_def)
      next
        case (Inr h)
        then have "provider_of h = p"
          using handler_class_provider [OF p] by blast
        with Inr False lacks IH [of "acc @ [h]"] show ?thesis
          by (simp add: create_handler_for_provider_eq [OF p] constructor_raises_def)
      qed
    qed
  qed
qed

lemma setup_fallbacks_order:
  assumes "constructors_raise_Exception L"
  shows "\<exists>hs. setup_fallbacks L config [] = Inr hs
           \<and> map provider_of hs = spec_fallback_order L config"
  using setup_loop_order [OF assms, of providers_to_try config "lower (llm_provider config)" "[]"]
  by (simp add: setup_fallbacks_def spec_fallback_order_def providers_to_try_def)

lemma generate_first_success:
  assumes "i < length (primary_handler self # fallback_handlers self)"
    and "generate ((primary_handler self # fallback_handlers self) ! i) message c = Inr out"
    and "\<forall>j < i. \<exists>e. generate ((primary_handler self # fallback_handlers self) ! j) message c = Inl e
                     \<and> is_Exception e"
  shows "MultiProviderLLM_generate self message c =
           (Inr out, take (Suc i) (primary_handler self # fallback_handlers self))"
proof (cases i)
  case 0
  with assms(2) show ?thesis by (simp add: MultiProviderLLM_generate_def)
next
  case (Suc k)
  from assms(3) Suc obtain e where e: "generate (primary_handler self) message c = Inl e" "is_Exception e"
    by fastforce
  have "\<forall>j < k. \<exists>e. generate (fallback_handlers self ! j) message c = Inl e \<and> is_Exception e"
    using assms(3) Suc by fastforce
  with try_fallbacks_first_success [of k "fallback_handlers self" message c out] assms(1,2) Suc
  have "try_fallbacks (fallback_handlers self) message c = (Inr out, take (Suc k) (fallback_handlers self))"
    by simp
  with e Suc show ?thesis by (simp add: MultiProviderLLM_generate_def)
qed


text \<open>
  C3.  (1) When the client constructors raise nothing but \<^verbatim>\<open>Exception\<close>s,
  \<^verbatim>\<open>_setup_fallbacks\<close> returns, and the providers of the fallback handlers are the
  priority order \<open>[lm_studio, ollama, gemini, openai]\<close> without the primary provider,
  without the providers that lack their credentials and without those whose constructor
  raised.  (2) \<^verbatim>\<open>generate\<close> tries the primary and then the fallbacks in list order: when
  the handler at position \<open>i\<close> of primary-then-fallbacks returns a text and all before
  it raise, \<^verbatim>\<open>generate\<close> returns that text and has invoked the handlers up to position
  \<open>i\<close> and no other.  (3) When the primary raises and exactly one fallback, at position
  \<open>k\<close>, returns a text while every other fallback raises, \<^verbatim>\<open>generate\<close> returns that
  fallback's text, and the invoked handlers are the primary and the fallbacks up to
  position \<open>k\<close>: none after it.
\<close>

theorem fallback_order_and_dispatch:
  "(constructors_raise_Exception L \<longrightarrow>
      (\<exists>hs. setup_fallbacks L config [] = Inr hs
         \<and> map provider_of hs = spec_fallback_order L config))
   \<and> (\<forall>i out.
         i < length (primary_handler self # fallback_handlers self)
         \<and> generate ((primary_handler self # fallback_handlers self) ! i) message c = Inr out
         \<and> (\<forall>j < i. \<exists>e. generate ((primary_handler self # fallback_handlers self) ! j) message c = Inl e
                        \<and> is_Exception e)
         \<longrightarrow> MultiProviderLLM_generate self message c =
               (Inr out, take (Suc i) (primary_handler self # fallback_handlers self)))
   \<and> (\<forall>k out.
         (\<exists>e. generate (primary_handler self) message c = Inl e \<and> is_Exception e)
         \<and> k < length (fallback_handlers self)
         \<and> generate (fallback_handlers self ! k) message c = Inr out
         \<and> (\<forall>j < length (fallback_handlers self).
               j \<noteq> k \<longrightarrow> (\<exists>e. generate (fallback_handlers self ! j) message c = Inl e
                                \<and> is_Exception e))
         \<longrightarrow> MultiProviderLLM_generate self message c =
               (Inr out, primary_handler self # take (Suc k) (fallback_handlers self)))"
proof (intro conjI allI impI)
  assume "constructors_raise_Exception L"
  then show "\<exists>hs. setup_fallbacks L config [] = Inr hs
               \<and> map provider_of hs = spec_fallback_order L config"
    by (rule setup_fallbacks_order)
next
  fix i out
  assume "i < length (primary_handler self # fallback_handlers self)
          \<and> generate ((primary_handler self # fallback_handlers self) ! i) message c = Inr out
          \<and> (\<forall>j < i. \<exists>e. generate ((primary_handler self # fallback_handlers self) ! j) message c = Inl e
                         \<and> is_Exception e)"
  then show "MultiProviderLLM_generate self message c =
               (Inr out, take (Suc i) (primary_handler self # fallback_handlers self))"
    using generate_first_success [of i self message c out] by blast
next
  fix k out
  assume a: "(\<exists>e. generate (primary_handler self) message c = Inl e \<and> is_Exception e)
             \<and> k < length (fallback_handlers self)
             \<and> generate (fallback_handlers self ! k) message c = Inr out
             \<and> (\<forall>j < length (fallback_handlers self).
                   j \<noteq> k \<longrightarrow> (\<exists>e. generate (fallback_handlers self ! j) message c = Inl e
                                    \<and> is_Exception e))"
  have before: "\<forall>j < Suc k. \<exists>e. generate ((primary_handler self # fallback_handlers self) ! j) message c = Inl e
                  \<and> is_Exception e"
  proof (intro allI impI)
    fix j
    assume "j < Suc k"
    show "\<exists>e. generate ((primary_handler self # fallback_handlers self) ! j) message c = Inl e
            \<and> is_Exception e"
    proof (cases j)
      case 0
      with a show ?thesis by simp
    next
      case (Suc m)
      with \<open>j < Suc k\<close> a have "m < length (fallback_handlers self)" "m \<noteq> k" by auto
      with a Suc show ?thesis by simp
    qed
  qed
  from a have "Suc k < length (primary_handler self # fallback_handlers self)"
    and "generate ((primary_handler self # fallback_handlers self) ! Suc k) message c = Inr out"
    by auto
  from generate_first_success [OF this before]
  show "MultiProviderLLM_generate self message c =
          (Inr out, primary_handler self # take (Suc k) (fallback_handlers self))"
    by simp
qed

lemma lower_provider_keys:
  "lower ''lm_studio'' = ''lm_studio''" "lower ''ollama'' = ''ollama''"
  "lower ''gemini'' = ''gemini''" "lower ''openai'' = ''openai''"
  by code_simp+

theorem fallback_order_and_dispatch_witness:
  "constructors_raise_Exception answering_libs
   \<and> (\<exists>hs. setup_fallbacks answering_libs default_config [] = Inr hs
         \<and> map provider_of hs = [''ollama''])
   \<and> (\<exists>e. generate (raising_handler ''lm_studio'') ''hello'' (Some []) = Inl e \<and> is_Exception e)
   \<and> (\<exists>e. generate (raising_handler ''ollama'') ''hello'' (Some []) = Inl e \<and> is_Exception e)
   \<and> generate (answering_handler ''gemini'') ''hello'' (Some []) = Inr ''gemini says: hello''
   \<and> (\<exists>e. generate (raising_handler ''openai'') ''hello'' (Some []) = Inl e \<and> is_Exception e)
   \<and> MultiProviderLLM_generate
        \<lparr>primary_handler = raising_handler ''lm_studio'',
         fallback_handlers = [raising_handler ''ollama'', answering_handler ''gemini'',
                              raising_handler ''openai'']\<rparr>
        ''hello'' (Some []) =
       (Inr ''gemini says: hello'',
        [raising_handler ''lm_studio'', raising_handler ''ollama'', answering_handler ''gemini''])
   \<and> MultiProviderLLM_generate
        \<lparr>primary_handler = raising_handler ''lm_studio'',
         fallback_handlers = [raising_handler ''ollama'', answering_handler ''gemini'',
                              raising_handler ''openai'']\<rparr>
        ''status'' None =
       (Inr ''gemini says: status'',
        [raising_handler ''lm_studio'', raising_handler ''ollama'', answering_handler ''gemini''])"
proof -
  define self where
    "self = \<lparr>primary_handler = raising_handler ''lm_studio'',
             fallback_handlers = [raising_handler ''ollama'', answering_handler ''gemini'',
                                  raising_handler ''openai'']\<rparr>"
  note T = fallback_order_and_dispatch [of answering_libs default_config self "''hello''" "Some []"]
  have ctor: "constructors_raise_Exception answering_libs"
    by (simp add: constructors_raise_Exception_def answering_libs_def)
  have order: "spec_fallback_order answering_libs default_config = [''ollama'']"
    by (simp add: spec_fallback_order_def default_config_def lower_provider_keys
        lacks_credentials_def constructor_raises_def handler_class_def OllamaHandler_def
        answering_libs_def)
  have r: "\<And>name. \<exists>e. generate (raising_handler name) ''hello'' (Some []) = Inl e \<and> is_Exception e"
    by (simp add: raising_handler_def)
  have a: "generate (answering_handler ''gemini'') ''hello'' (Some []) = Inr ''gemini says: hello''"
    by (simp add: answering_handler_def)
  have others: "\<forall>j < length (fallback_handlers self).
                  j \<noteq> 1 \<longrightarrow> (\<exists>e. generate (fallback_handlers self ! j) ''hello'' (Some []) = Inl e
                                  \<and> is_Exception e)"
  proof (intro allI impI)
    fix j
    assume "j < length (fallback_handlers self)" "j \<noteq> 1"
    then have "j = 0 \<or> j = 2" by (auto simp: self_def)
    then show "\<exists>e. generate (fallback_handlers self ! j) ''hello'' (Some []) = Inl e \<and> is_Exception e"
      using r by (auto simp: self_def)
  qed
  from T ctor have 1: "\<exists>hs. setup_fallbacks answering_libs default_config [] = Inr hs
                         \<and> map provider_of hs = [''ollama'']"
    unfolding order by blast
  have "(\<exists>e. generate (primary_handler self) ''hello'' (Some []) = Inl e \<and> is_Exception e)
        \<and> 1 < length (fallback_handlers self)
        \<and> generate (fallback_handlers self ! 1) ''hello'' (Some []) = Inr ''gemini says: hello''
        \<and> (\<forall>j < length (fallback_handlers self).
              j \<noteq> 1 \<longrightarrow> (\<exists>e. generate (fallback_handlers self ! j) ''hello'' (Some []) = Inl e
                              \<and> is_Exception e))"
    using r a others by (simp add: self_def)
  with T have "MultiProviderLLM_generate self ''hello'' (Some []) =
                 (Inr ''gemini says: hello'', primary_handler self # take (Suc 1) (fallback_handlers self))"
    by blast
  then have 3: "MultiProviderLLM_generate self ''hello'' (Some []) =
                 (Inr ''gemini says: hello'',
                  [raising_handler ''lm_studio'', raising_handler ''ollama'', answering_handler ''gemini''])"
    by (simp add: self_def)
  note T2 = fallback_order_and_dispatch [of answering_libs default_config self "''status''" None]
  have "2 < length (primary_handler self # fallback_handlers self)
        \<and> generate ((primary_handler self # fallback_handlers self) ! 2) ''status'' None
            = Inr ''gemini says: status''
        \<and> (\<forall>j < 2. \<exists>e. generate ((primary_handler self # fallback_handlers self) ! j) ''status'' None = Inl e
                       \<and> is_Exception e)"
    by (simp add: self_def answering_handler_def raising_handler_def less_Suc_eq numeral_2_eq_2)
  with T2 have "MultiProviderLLM_generate self ''status'' None =
                 (Inr ''gemini says: status'', take (Suc 2) (primary_handler self # fallback_handlers self))"
    by blast
  then have 2: "MultiProviderLLM_generate self ''status'' None =
                 (Inr ''gemini says: status'',
                  [raising_handler ''lm_studio'', raising_handler ''ollama'', answering_handler ''gemini''])"
    by (simp add: self_def numeral_2_eq_2)
  show ?thesis
    using ctor 1 r a 3 2 unfolding self_def by simp
qed


section \<open>Properties of the memory store\<close>

lemma slice_from_minus:
  "1 \<le> n \<Longrightarrow> slice_from (- n) xs = drop (length xs - nat n) xs"
  by (auto simp: slice_from_def nat_diff_distrib' intro: arg_cong)

lemma slice_from_minus_zero: "slice_from (- 0) xs = xs"
  by (simp add: slice_from_def)

lemma create_conversation_effect:
  assumes "create_conversation self cid w = (res, self', w')"
  shows "max_messages self' = max_messages self"
    and "\<exists>k t. conversations self' =
                 (conversations self)(k \<mapsto> \<lparr>conv_id = k, messages = [], created_at = t,
                                               conv_metadata = []\<rparr>)
           \<and> (\<forall>c. res = Inr c \<longrightarrow>
                  c = \<lparr>conv_id = k, messages = [], created_at = t, conv_metadata = []\<rparr>)"
proof -
  obtain k w1 where k: "(case cid of
                           None \<Rightarrow> (let (t, w') = now w in (''conv_'' @ strftime_stamp t, w'))
                         | Some c \<Rightarrow> (c, w)) = (k, w1)"
    by (cases "case cid of
                 None \<Rightarrow> (let (t, w') = now w in (''conv_'' @ strftime_stamp t, w'))
               | Some c \<Rightarrow> (c, w)")
  obtain t w2 where t: "now w1 = (t, w2)" by (cases "now w1")
  from assms k t show "max_messages self' = max_messages self"
    by (auto simp: create_conversation_def Let_def split: if_splits prod.splits option.splits)
  from assms k t
  have "conversations self' =
          (conversations self)(k \<mapsto> \<lparr>conv_id = k, messages = [], created_at = isoformat t,
                                        conv_metadata = []\<rparr>)
        \<and> (\<forall>c. res = Inr c \<longrightarrow>
               c = \<lparr>conv_id = k, messages = [], created_at = isoformat t, conv_metadata = []\<rparr>)"
    by (auto simp: create_conversation_def Let_def split: if_splits prod.splits option.splits)
  then show "\<exists>k t. conversations self' =
                 (conversations self)(k \<mapsto> \<lparr>conv_id = k, messages = [], created_at = t,
                                               conv_metadata = []\<rparr>)
           \<and> (\<forall>c. res = Inr c \<longrightarrow>
                  c = \<lparr>conv_id = k, messages = [], created_at = t, conv_metadata = []\<rparr>)"
    by blast
qed

lemma append_trim_save_effect:
  assumes "append_trim_save self k conversation r c md w = (res, self', w')"
  shows "max_messages self' = max_messages self"
    and "\<And>k'. k' \<noteq> k \<Longrightarrow> conversations self' k' = conversations self k'"
    and "1 \<le> max_messages self \<Longrightarrow> int (message_count self' k) \<le> max_messages self"
  using assms
  by (auto simp: append_trim_save_def Let_def now_def message_count_def slice_from_def
      split: if_splits prod.splits option.splits)

text \<open>
  What the trim keeps when the limit is positive: the newest messages, the oldest
  dropped first.
\<close>

lemma append_trim_save_keeps_newest:
  assumes "append_trim_save self k conversation r c md w = (res, self', w')"
    and "1 \<le> max_messages self"
  shows "\<exists>conv' msg. conversations self' k = Some conv'
           \<and> role msg = r \<and> content msg = c
           \<and> messages conv' =
               drop (length (messages conversation @ [msg]) - nat (max_messages self))
                 (messages conversation @ [msg])"
  using assms
  by (auto simp: append_trim_save_def Let_def now_def slice_from_minus
      split: if_splits prod.splits option.splits)

lemma within_limit_append_trim_save:
  assumes "append_trim_save self k conversation r c md w = (res, self', w')"
    and "1 \<le> max_messages self" and "within_limit self"
  shows "within_limit self'"
  unfolding within_limit_def
proof
  fix k'
  show "int (message_count self' k') \<le> max_messages self'"
  proof (cases "k' = k")
    case True
    with append_trim_save_effect(1,3) [OF assms(1)] assms(2) show ?thesis by simp
  next
    case False
    with append_trim_save_effect(1,2) [OF assms(1)] assms(3) show ?thesis
      by (simp add: within_limit_def message_count_def)
  qed
qed

lemma within_limit_create_conversation:
  assumes "create_conversation self cid w = (res, self', w')"
    and "0 \<le> max_messages self" and "within_limit self"
  shows "within_limit self'"
proof -
  from create_conversation_effect [OF assms(1)] obtain k conv
    where m: "max_messages self' = max_messages self"
      and c: "conversations self' = (conversations self)(k \<mapsto> conv)" "messages conv = []"
    by fastforce
  show ?thesis
    unfolding within_limit_def
  proof
    fix k'
    show "int (message_count self' k') \<le> max_messages self'"
      using m c assms(2,3) by (cases "k' = k") (auto simp: within_limit_def message_count_def)
  qed
qed

text \<open>
  With a limit of at least one, \<^verbatim>\<open>add_message\<close> keeps every conversation within the limit,
  whether it returns the message or raises from the save; and so does every sequence of
  calls.
\<close>

lemma within_limit_add_message:
  assumes "add_message self r c cid md w = (res, self', w')"
    and "1 \<le> max_messages self" and "within_limit self"
  shows "within_limit self' \<and> max_messages self' = max_messages self"
proof (cases "get_conversation self cid")
  case (Some kc)
  obtain k conversation where kc: "kc = (k, conversation)" by (cases kc)
  with Some assms(1) have "append_trim_save self k conversation r c md w = (res, self', w')"
    by (simp add: add_message_def)
  with assms(2,3) show ?thesis
    using within_limit_append_trim_save append_trim_save_effect(1) by blast
next
  case None
  obtain res1 self1 w1 where cr: "create_conversation self None w = (res1, self1, w1)"
    by (cases "create_conversation self None w")
  from within_limit_create_conversation [OF cr] create_conversation_effect(1) [OF cr] assms(2,3)
  have s1: "within_limit self1" "max_messages self1 = max_messages self" by auto
  show ?thesis
  proof (cases res1)
    case (Inl e)
    with None cr assms(1) have "self' = self1" by (simp add: add_message_def)
    with s1 show ?thesis by simp
  next
    case (Inr conversation)
    with None cr assms(1)
    have "append_trim_save self1 (conv_id conversation) conversation r c md w1 = (res, self', w')"
      by (simp add: add_message_def)
    with s1 assms(2) show ?thesis
      using within_limit_append_trim_save append_trim_save_effect(1) by metis
  qed
qed

lemma within_limit_add_messages:
  assumes "1 \<le> max_messages self" and "within_limit self"
  shows "within_limit (fst (add_messages self reqs w))"
  using assms
proof (induction reqs arbitrary: self w)
  case Nil
  then show ?case by simp
next
  case (Cons req reqs)
  obtain r c cid where req: "req = (r, c, cid)" by (cases req)
  obtain res self' w' where a: "add_message self r c cid None w = (res, self', w')"
    by (cases "add_message self r c cid None w")
  from within_limit_add_message [OF a Cons.prems] Cons.prems(1)
  have "1 \<le> max_messages self'" "within_limit self'" by auto
  from Cons.IH [OF this, of w'] req a show ?case by simp
qed

text \<open>
  C2.  The claim fails for a limit of zero: \<^verbatim>\<open>messages[-0:]\<close> is the whole list, so the
  trim drops nothing.  A store with \<^verbatim>\<open>max_messages_per_conversation=0\<close> holds one message
  after one \<^verbatim>\<open>add_message\<close> and three after three, above its limit.
\<close>

theorem add_message_limit_zero_not_trimmed:
  "max_messages (test_store 0) = 0
   \<and> message_count
        (fst (snd (add_message (test_store 0) ''user'' ''Test message'' None None quiet_world)))
        ''test'' = 1
   \<and> message_count
        (fst (add_messages (test_store 0)
           [(''user'', ''one'', None), (''assistant'', ''two'', None), (''user'', ''three'', None)]
           quiet_world))
        ''test'' = 3"
  by (simp add: add_message_def test_store_def get_conversation_def append_trim_save_def
      now_def Let_def quiet_world_def save_conversation_def message_count_def slice_from_def)


section \<open>Properties of the knowledge retriever\<close>

lemma context_parts_numbered:
  "context_parts i hs =
     map2 (\<lambda>k h. ''[Reference '' @ str_nat k @ '' - '' @ topic_label h @ '']'' @ [newline] @ hit_text h)
       [i ..< i + length hs] hs"
proof (induction hs arbitrary: i)
  case Nil
  then show ?case by simp
next
  case (Cons h hs)
  have "[i ..< i + length (h # hs)] = i # [Suc i ..< Suc i + length hs]"
    by (simp add: upt_rec)
  with Cons.IH [of "Suc i"] show ?case by simp
qed

lemma retrieve_relevant:
  assumes "embed S query = Inr qe" and "run_search S self query n topic qe = Inr results"
  shows "retrieve S self query n topic min_relevance =
           Inr (join delimiter (context_parts 1 (filter (\<lambda>h. distance h < 2) results)))"
  using assms by (cases results) (simp_all add: retrieve_def Let_def)

text \<open>
  C6.  When the embedding and the search return, \<^verbatim>\<open>retrieve\<close> keeps exactly the hits whose
  distance is below 2.0, in the order of the search, and returns them as blocks
  \<open>[Reference k - topic]\<close>, newline, text, numbered from 1 and joined by the delimiter
  (a blank line, \<open>---\<close>, a blank line); when every hit has a distance of 2.0 or more it
  returns the empty string.
\<close>

theorem retrieve_filters_by_distance:
  assumes "embed S query = Inr qe" and "run_search S self query n topic qe = Inr results"
  shows "retrieve S self query n topic min_relevance =
           Inr (join ([newline, newline] @ ''---'' @ [newline, newline])
                  (map2 (\<lambda>k h. ''[Reference '' @ str_nat k @ '' - '' @ topic_label h @ '']''
                                 @ [newline] @ hit_text h)
                     [1 ..< 1 + length (filter (\<lambda>h. distance h < 2) results)]
                     (filter (\<lambda>h. distance h < 2) results)))
         \<and> ((\<forall>h \<in> set results. 2 \<le> distance h) \<longrightarrow>
               retrieve S self query n topic min_relevance = Inr [])"
proof
  show "retrieve S self query n topic min_relevance =
          Inr (join ([newline, newline] @ ''---'' @ [newline, newline])
                 (map2 (\<lambda>k h. ''[Reference '' @ str_nat k @ '' - '' @ topic_label h @ '']''
                                @ [newline] @ hit_text h)
                    [1 ..< 1 + length (filter (\<lambda>h. distance h < 2) results)]
                    (filter (\<lambda>h. distance h < 2) results)))"
    using retrieve_relevant [OF assms]
      context_parts_numbered [of 1 "filter (\<lambda>h. distance h < 2) results"]
    by (simp add: delimiter_def)
next
  show "(\<forall>h \<in> set results. 2 \<le> distance h) \<longrightarrow>
          retrieve S self query n topic min_relevance = Inr []"
  proof
    assume "\<forall>h \<in> set results. 2 \<le> distance h"
    then have "filter (\<lambda>h. distance h < 2) results = []"
      by (auto simp: filter_empty_conv)
    with retrieve_relevant [OF assms] show "retrieve S self query n topic min_relevance = Inr []"
      by simp
  qed
qed

lemma str_nat_digits:
  "str_nat (Suc 0) = ''1''" "str_nat 1 = ''1''" "str_nat 2 = ''2''" "str_nat 3 = ''3''"
  by code_simp+

lemma run_search_embedding:
  "run_search test_services test_rag ''what is c?'' 3 None [1, 0, 0] =
     Inr [\<lparr>hit_id = ''physics_0_aaaaaaaaaaaa'',
            hit_text = ''Question: What is c?'' @ [newline, newline] @ ''Answer: The speed of light.'',
            hit_metadata = [(''topic'', ''relativity''), (''source'', ''physics.yaml'')],
            distance = 1 / 2\<rparr>,
          \<lparr>hit_id = ''physics_1_bbbbbbbbbbbb'', hit_text = ''Question: What is G?'',
            hit_metadata = [(''topic'', ''general'')], distance = 2\<rparr>,
          \<lparr>hit_id = ''physics_2_cccccccccccc'', hit_text = ''Question: What is h?'',
            hit_metadata = [], distance = 5 / 2\<rparr>]"
  by (simp add: run_search_def search_def test_services_def test_rag_def near_and_far_def
      field_at_def item_def)

lemma run_search_topic:
  "run_search test_services test_rag ''what is G?'' 3 (Some ''general'') [1, 0, 0] =
     Inr [\<lparr>hit_id = ''physics_1_bbbbbbbbbbbb'', hit_text = ''Question: What is G?'',
            hit_metadata = [(''topic'', ''general'')], distance = 2\<rparr>,
          \<lparr>hit_id = ''physics_2_cccccccccccc'', hit_text = ''Question: What is h?'',
            hit_metadata = [(''topic'', ''general'')], distance = 3\<rparr>]"
  by (simp add: run_search_def search_by_topic_def search_def test_services_def test_rag_def
      all_far_def field_at_def item_def)

theorem retrieve_filters_by_distance_witness:
  "embed test_services ''what is c?'' = Inr [1, 0, 0]
   \<and> retrieve test_services test_rag ''what is c?'' 3 None 0.3 =
       Inr (''[Reference 1 - relativity]'' @ [newline] @ ''Question: What is c?''
            @ [newline, newline] @ ''Answer: The speed of light.'')
   \<and> embed test_services ''what is G?'' = Inr [1, 0, 0]
   \<and> retrieve test_services test_rag ''what is G?'' 3 (Some ''general'') 0.3 = Inr []"
proof -
  have e: "\<And>q. embed test_services q = Inr [1, 0, 0]"
    by (simp add: test_services_def)
  from retrieve_filters_by_distance [OF e run_search_embedding, of "0.3"]
  have 1: "retrieve test_services test_rag ''what is c?'' 3 None 0.3 =
             Inr (''[Reference 1 - relativity]'' @ [newline] @ ''Question: What is c?''
                  @ [newline, newline] @ ''Answer: The speed of light.'')"
    by (simp add: topic_label_def str_nat_digits)
  from retrieve_filters_by_distance [OF e run_search_topic, of "0.3"]
  have 2: "retrieve test_services test_rag ''what is G?'' 3 (Some ''general'') 0.3 = Inr []"
    by simp
  from e 1 2 show ?thesis by simp
qed

text \<open>
  C9.  \<^verbatim>\<open>min_relevance\<close> does not influence \<^verbatim>\<open>retrieve\<close>: with the same services, index,
  query, \<^verbatim>\<open>n_results\<close> and topic, any two values give the same outcome.
\<close>

theorem retrieve_ignores_min_relevance:
  "retrieve S self query n topic a = retrieve S self query n topic b"
  by (simp add: retrieve_def)

lemma prepare_loaded:
  "snd (snd (snd (prepare S es (a, b, c, l)))) = l \<union> doc_id_of S ` set es"
  by (induction es arbitrary: a b c l) auto

lemma prepare_all_loaded:
  "doc_id_of S ` set es \<subseteq> l \<Longrightarrow> prepare S es (a, b, c, l) = (a, b, c, l)"
  by (induction es) auto

lemma index_directory_loaded:
  "loaded_datasets (snd (index_directory S self directory)) =
     loaded_datasets self \<union> doc_id_of S ` set (load_directory S directory)"
proof (cases "load_directory S directory = []")
  case True
  then show ?thesis by (simp add: index_directory_def)
next
  case False
  obtain a b c l
    where p: "prepare S (load_directory S directory) ([], [], [], loaded_datasets self) = (a, b, c, l)"
    by (metis prod_cases4)
  from prepare_loaded [of S "load_directory S directory" "[]" "[]" "[]" "loaded_datasets self"] p
  have "l = loaded_datasets self \<union> doc_id_of S ` set (load_directory S directory)" by simp
  moreover have "loaded_datasets (snd (index_directory S self directory)) = l"
    using False p by (auto simp: index_directory_def Let_def split: sum.splits)
  ultimately show ?thesis by simp
qed



section \<open>Properties of the personality pipeline\<close>

lemma lower_char_A: "lower_char CHR ''A'' = CHR ''a''"
  by code_simp

lemma honest_prefix_nonempty: "HONEST_PREFIXES ! (k mod length HONEST_PREFIXES) \<noteq> []"
proof -
  have "k mod length HONEST_PREFIXES < length HONEST_PREFIXES"
    by (simp add: HONEST_PREFIXES_def)
  then have "HONEST_PREFIXES ! (k mod length HONEST_PREFIXES) \<in> set HONEST_PREFIXES"
    by (rule nth_mem)
  then show ?thesis by (auto simp: HONEST_PREFIXES_def)
qed

lemma add_humor_raises_iff:
  "fst (add_humor self response w) = Inl e \<longleftrightarrow>
     e = IndexError \<and> response = [] \<and> floats w (cursor w) < humor_level self
     \<and> floats w (cursor w + 1) < 0.3 \<and> humor_level self > 0.5"
  by (cases response)
    (auto simp: add_humor_def should_add_sarcasm_def random_random_def random_choice_def
      prefix_lowered_def Let_def)

lemma format_with_honesty_empty:
  "format_with_honesty self [] certainty w =
     (if certainty < 0.7 \<and> honesty_level self > 0.8
      then (Inl IndexError, w\<lparr>cursor := cursor w + 1\<rparr>)
      else if floats w (cursor w) < 0.1 \<and> honesty_level self > 0.85
      then (Inr (HONEST_PREFIXES ! (picks w (cursor w + 1) mod length HONEST_PREFIXES)),
            w\<lparr>cursor := cursor w + 2\<rparr>)
      else (Inr [], w\<lparr>cursor := cursor w + 1\<rparr>))"
  by (simp add: format_with_honesty_def random_random_def random_choice_def prefix_lowered_def)

lemma enhance_response_raises:
  "fst (enhance_response self response with_humor with_cue_light certainty w) = Inl e \<longleftrightarrow>
     (case format_with_honesty (honesty self) response certainty w of
        (Inl e', w1) \<Rightarrow> e' = e
      | (Inr response1, w1) \<Rightarrow> with_humor \<and> fst (add_humor (humor self) response1 w1) = Inl e)"
  by (auto simp: enhance_response_def maybe_add_def Let_def split: prod.splits sum.splits)

lemma enhance_response_empty_raises_iff:
  "fst (enhance_response self [] with_humor with_cue_light certainty w) = Inl e \<longleftrightarrow>
     e = IndexError
     \<and> ((certainty < 0.7 \<and> honesty_level (honesty self) > 0.8)
        \<or> (\<not> (floats w (cursor w) < 0.1 \<and> honesty_level (honesty self) > 0.85)
           \<and> with_humor
           \<and> floats w (cursor w + 1) < humor_level (humor self)
           \<and> floats w (cursor w + 2) < 0.3 \<and> humor_level (humor self) > 0.5))"
  using honest_prefix_nonempty
  by (auto simp: enhance_response_raises format_with_honesty_empty add_humor_raises_iff)

text \<open>
  C10, as amended.  On the empty string \<^verbatim>\<open>enhance_response\<close> raises \<^verbatim>\<open>IndexError\<close> in
  exactly two cases: the hedging branch applies (certainty below 0.7 and honesty above
  0.8); or the honesty stage leaves the response empty (its draw is not below 0.1, or
  honesty is not above 0.85), humor is enabled, the humor draw is below the humor level,
  the type draw is below 0.3 and the humor level is above 0.5.  In every other case it
  returns a text.  The draws are the values of \<^verbatim>\<open>random.random()\<close> in call order: with
  no hedging, the honesty draw is the first, the humor draw the second and the type draw
  the third.
\<close>

theorem enhance_response_empty_string:
  "((certainty < 0.7 \<and> honesty_level (honesty self) > 0.8)
    \<or> (\<not> (floats w (cursor w) < 0.1 \<and> honesty_level (honesty self) > 0.85)
       \<and> with_humor
       \<and> floats w (cursor w + 1) < humor_level (humor self)
       \<and> floats w (cursor w + 2) < 0.3 \<and> humor_level (humor self) > 0.5)
    \<longrightarrow> fst (enhance_response self [] with_humor with_cue_light certainty w) = Inl IndexError)
   \<and> (\<not> ((certainty < 0.7 \<and> honesty_level (honesty self) > 0.8)
          \<or> (\<not> (floats w (cursor w) < 0.1 \<and> honesty_level (honesty self) > 0.85)
             \<and> with_humor
             \<and> floats w (cursor w + 1) < humor_level (humor self)
             \<and> floats w (cursor w + 2) < 0.3 \<and> humor_level (humor self) > 0.5))
    \<longrightarrow> (\<exists>text. fst (enhance_response self [] with_humor with_cue_light certainty w) = Inr text))"
proof (intro conjI impI)
  assume "(certainty < 0.7 \<and> honesty_level (honesty self) > 0.8)
    \<or> (\<not> (floats w (cursor w) < 0.1 \<and> honesty_level (honesty self) > 0.85)
       \<and> with_humor
       \<and> floats w (cursor w + 1) < humor_level (humor self)
       \<and> floats w (cursor w + 2) < 0.3 \<and> humor_level (humor self) > 0.5)"
  then show "fst (enhance_response self [] with_humor with_cue_light certainty w) = Inl IndexError"
    using enhance_response_empty_raises_iff [of self with_humor with_cue_light certainty w IndexError]
    by blast
next
  assume n: "\<not> ((certainty < 0.7 \<and> honesty_level (honesty self) > 0.8)
          \<or> (\<not> (floats w (cursor w) < 0.1 \<and> honesty_level (honesty self) > 0.85)
             \<and> with_humor
             \<and> floats w (cursor w + 1) < humor_level (humor self)
             \<and> floats w (cursor w + 2) < 0.3 \<and> humor_level (humor self) > 0.5))"
  show "\<exists>text. fst (enhance_response self [] with_humor with_cue_light certainty w) = Inr text"
  proof (cases "fst (enhance_response self [] with_humor with_cue_light certainty w)")
    case (Inl e)
    with n enhance_response_empty_raises_iff [of self with_humor with_cue_light certainty w e]
    show ?thesis by blast
  next
    case (Inr t)
    then show ?thesis by blast
  qed
qed

text \<open>
  C10 as stated fails.  With the default settings (humor 0.6, honesty 0.9, certainty
  0.9) and every draw 0.05, the honesty stage prepends \<open>Absolute honesty here: \<close> to the
  empty string; the humor draw then selects the sarcastic-prefix branch (0.05 below the
  humor level 0.6, 0.05 below 0.3, humor level above 0.5), \<^verbatim>\<open>response[0]\<close> is \<open>A\<close>, and the
  call returns a text.
\<close>

theorem enhance_response_empty_string_counterexample:
  "floats eager_world 2 < humor_level (humor default_generator)
   \<and> floats eager_world 3 < 0.3
   \<and> humor_level (humor default_generator) > 0.5
   \<and> fst (format_with_honesty (honesty default_generator) [] 0.9 eager_world)
       = Inr ''Absolute honesty here: ''
   \<and> cursor (snd (format_with_honesty (honesty default_generator) [] 0.9 eager_world)) = 2
   \<and> fst (enhance_response default_generator [] True True 0.9 eager_world) =
       Inr (''Oh, look at that'' @ emdash @ ''absolute honesty here:  *Cue light flashes*'')"
  by (simp add: enhance_response_def default_generator_def ResponseGenerator_init_def
      HonestyModule_init_def HumorController_init_def default_config_def
      format_with_honesty_def add_humor_def should_add_sarcasm_def maybe_add_def
      random_action_def random_random_def random_choice_def eager_world_def quiet_world_def
      HONEST_PREFIXES_def SARCASTIC_PREFIXES_def ACTIONS_def prefix_lowered_def lower_char_A
      Let_def)

theorem enhance_response_empty_string_witness:
  "(0.5::real) < 0.7 \<and> honesty_level (honesty default_generator) > 0.8
   \<and> fst (enhance_response default_generator [] True True 0.5 quiet_world) = Inl IndexError
   \<and> floats (quiet_world\<lparr>floats := (\<lambda>n. if n = 0 then 1 / 2 else 1 / 20)\<rparr>) 1
        < humor_level (humor default_generator)
   \<and> fst (enhance_response default_generator [] True True 0.9
            (quiet_world\<lparr>floats := (\<lambda>n. if n = 0 then 1 / 2 else 1 / 20)\<rparr>)) = Inl IndexError
   \<and> (\<exists>text. fst (enhance_response default_generator [] True True 0.9 quiet_world) = Inr text)"
proof -
  have g: "honesty_level (honesty default_generator) = 0.9" "humor_level (humor default_generator) = 0.6"
    by (simp_all add: default_generator_def ResponseGenerator_init_def HonestyModule_init_def
        HumorController_init_def default_config_def)
  have 1: "fst (enhance_response default_generator [] True True 0.5 quiet_world) = Inl IndexError"
    using enhance_response_empty_string [of "0.5" default_generator quiet_world True True] g
    by simp
  have 2: "fst (enhance_response default_generator [] True True 0.9
                 (quiet_world\<lparr>floats := (\<lambda>n. if n = 0 then 1 / 2 else 1 / 20)\<rparr>)) = Inl IndexError"
    using enhance_response_empty_string
      [of "0.9" default_generator "quiet_world\<lparr>floats := (\<lambda>n. if n = 0 then 1 / 2 else 1 / 20)\<rparr>"
        True True] g
    by (simp add: quiet_world_def)
  have 3: "\<exists>text. fst (enhance_response default_generator [] True True 0.9 quiet_world) = Inr text"
    using enhance_response_empty_string [of "0.9" default_generator quiet_world True True] g
    by (simp add: quiet_world_def)
  from g 1 2 3 show ?thesis by simp
qed


section \<open>Properties of the engine\<close>

lemma time_query_text:
  "strip ''what time is it?'' = ''what time is it?''"
  "lower ''what time is it?'' = ''what time is it?''"
  "contains ''what time is it?'' ''what time''"
  by code_simp+

lemma time_responses_nonempty:
  "r \<in> set (time_responses current_time action pct) \<Longrightarrow> r \<noteq> []"
  by (auto simp: time_responses_def)

lemma format_time_response_eq:
  "format_time_response self w =
     (time_responses (strftime_clock (clock w (ticks w)))
        (ACTIONS ! (picks w (cursor w) mod length ACTIONS))
        (percent w (tars_humor_level (rg_config self)))
      ! (picks w (cursor w + 1) mod 7),
      w\<lparr>ticks := ticks w + 1, cursor := cursor w + 2\<rparr>)"
  by (simp add: format_time_response_def now_def random_action_def random_choice_def
      time_responses_def Let_def)

lemma handle_time_query:
  "handle_special_commands self ''what time is it?'' w =
     (Some (fst (format_time_response (personality self) w)),
      snd (format_time_response (personality self) w))"
  by (simp add: handle_special_commands_def time_query_text Let_def split: prod.splits)

lemma format_time_response_mem:
  "\<exists>action \<in> set ACTIONS.
     fst (format_time_response self w)
       \<in> set (time_responses (strftime_clock (clock w (ticks w))) action
                (percent w (tars_humor_level (rg_config self))))"
proof -
  have "picks w (cursor w) mod length ACTIONS < length ACTIONS"
    by (simp add: ACTIONS_def)
  then have a: "ACTIONS ! (picks w (cursor w) mod length ACTIONS) \<in> set ACTIONS"
    by (rule nth_mem)
  have "picks w (cursor w + 1) mod 7
          < length (time_responses (strftime_clock (clock w (ticks w)))
                      (ACTIONS ! (picks w (cursor w) mod length ACTIONS))
                      (percent w (tars_humor_level (rg_config self))))"
    by (simp add: time_responses_def)
  then have "fst (format_time_response self w)
               \<in> set (time_responses (strftime_clock (clock w (ticks w)))
                        (ACTIONS ! (picks w (cursor w) mod length ACTIONS))
                        (percent w (tars_humor_level (rg_config self))))"
    unfolding format_time_response_eq fst_conv by (rule nth_mem)
  with a show ?thesis by blast
qed

text \<open>
  C5.  For the input \<open>what time is it?\<close>, whatever the engine, the services and the
  world: \<^verbatim>\<open>chat\<close> returns one of the seven time responses, formatted with the reading of
  the clock (\<^verbatim>\<open>%I:%M %p\<close>), the seventh also with the humor percentage as the platform
  computes \<^verbatim>\<open>int(level * 100)\<close>; the engine after the call is the engine before it, so the
  memory store is unchanged; no file has been written; and no call of the router or of
  a handler has been made.
\<close>

theorem chat_time_query:
  "(\<exists>action \<in> set ACTIONS.
      \<exists>response \<in> set (time_responses (strftime_clock (clock w (ticks w))) action
                          (percent w (tars_humor_level (rg_config (personality self))))).
        fst (chat S self ''what time is it?'' enhance w) = Inr response)
   \<and> fst (snd (chat S self ''what time is it?'' enhance w)) = self
   \<and> memory (fst (snd (chat S self ''what time is it?'' enhance w))) = memory self
   \<and> files (snd (snd (chat S self ''what time is it?'' enhance w))) = files w
   \<and> calls (snd (snd (chat S self ''what time is it?'' enhance w))) = calls w"
proof -
  have ne: "fst (format_time_response (personality self) w) \<noteq> []"
    using format_time_response_mem [of "personality self" w] time_responses_nonempty by blast
  have c: "chat S self ''what time is it?'' enhance w =
             (Inr (fst (format_time_response (personality self) w)), self,
              snd (format_time_response (personality self) w))"
    using ne by (simp add: chat_def time_query_text handle_time_query)
  show ?thesis
    unfolding c using format_time_response_mem [of "personality self" w]
    by (simp add: format_time_response_eq)
qed


lemma save_conversation_calls:
  "save_conversation m c w = (r, w') \<Longrightarrow> calls w' = calls w"
  by (auto simp: save_conversation_def Let_def split: option.splits)

lemma create_conversation_calls:
  assumes "create_conversation m cid w = (r, m', w')"
  shows "calls w' = calls w"
proof -
  obtain k w1 where k: "(case cid of
                           None \<Rightarrow> (let (t, w') = now w in (''conv_'' @ strftime_stamp t, w'))
                         | Some c \<Rightarrow> (c, w)) = (k, w1)"
    by (cases "case cid of
                 None \<Rightarrow> (let (t, w') = now w in (''conv_'' @ strftime_stamp t, w'))
               | Some c \<Rightarrow> (c, w)")
  then have w1: "calls w1 = calls w"
    by (auto simp: now_def split: option.splits)
  obtain t w2 where t: "now w1 = (t, w2)" by (cases "now w1")
  then have w2: "calls w2 = calls w1" by (auto simp: now_def)
  from assms k t w1 w2 show ?thesis
    by (auto simp: create_conversation_def Let_def split: if_splits prod.splits option.splits
        dest: save_conversation_calls)
qed

lemma append_trim_save_calls:
  assumes "append_trim_save m k conv r c md w = (res, m', w')"
  shows "calls w' = calls w"
  using assms
  by (auto simp: append_trim_save_def Let_def now_def split: if_splits prod.splits option.splits
      dest: save_conversation_calls)

lemma add_message_calls:
  assumes "add_message m r c cid md w = (res, m', w')"
  shows "calls w' = calls w"
  using assms
  by (auto simp: add_message_def split: option.splits prod.splits sum.splits
      dest!: append_trim_save_calls create_conversation_calls)

lemma maybe_add_cases:
  assumes "maybe_add p w = (cue, w')"
  shows "calls w' = calls w \<and> (cue = [] \<or> (\<exists>action \<in> set ACTIONS. cue = '' '' @ action))"
proof -
  have "picks w (Suc (cursor w)) mod length ACTIONS < length ACTIONS"
    by (simp add: ACTIONS_def)
  then have "ACTIONS ! (picks w (Suc (cursor w)) mod length ACTIONS) \<in> set ACTIONS"
    by (rule nth_mem)
  with assms show ?thesis
    by (auto simp: maybe_add_def random_random_def random_action_def random_choice_def Let_def
        split: if_splits)
qed

lemma handle_special_commands_calls:
  "calls (snd (handle_special_commands self u w)) = calls w"
  by (simp add: handle_special_commands_def format_time_response_def format_farewell_def
      get_identity_response_def now_def random_action_def random_choice_def Let_def
      split: prod.splits)


lemma stream_turn_primary_only:
  assumes "stream_turn self user_input w = ((ys, ending), self', w')"
  shows "(calls w' = calls w \<and> ys = [] \<and> ending \<noteq> None)
         \<or> (\<exists>history tail.
               calls w' = calls w @ [HandlerStream (primary_handler (llm self)) user_input (Some history)]
               \<and> ys = fst (generate_stream (primary_handler (llm self)) user_input (Some history)) @ tail
               \<and> (tail = [] \<or> (\<exists>action \<in> set ACTIONS. tail = ['' '' @ action]))
               \<and> (\<forall>e. snd (generate_stream (primary_handler (llm self)) user_input (Some history)) = Some e
                      \<longrightarrow> tail = [] \<and> ending = Some e))"
proof -
  obtain res m1 w1 where a: "add_message (memory self) ''user'' user_input None None w = (res, m1, w1)"
    by (metis prod_cases3)
  have c1: "calls w1 = calls w" using add_message_calls [OF a] .
  show ?thesis
  proof (cases res)
    case (Inl e)
    with a assms c1 show ?thesis by (auto simp: stream_turn_def)
  next
    case (Inr user_msg)
    define history where "history = butlast (get_history m1 None (Some 20))"
    obtain cs end1 where g: "generate_stream (primary_handler (llm self)) user_input (Some history) = (cs, end1)"
      by (cases "generate_stream (primary_handler (llm self)) user_input (Some history)")
    define w2 where "w2 = w1\<lparr>calls := calls w1 @ [HandlerStream (primary_handler (llm self)) user_input (Some history)]\<rparr>"
    show ?thesis
    proof (cases end1)
      case (Some e)
      with a Inr g assms c1 have "ys = cs" "ending = Some e" "w' = w2"
        by (auto simp: stream_turn_def Let_def history_def w2_def)
      with g Some c1 show ?thesis
        by (intro disjI2 exI [of _ history] exI [of _ "[]"]) (simp add: w2_def)
    next
      case None
      obtain cue w3 where m: "maybe_add 0.1 w2 = (cue, w3)" by (cases "maybe_add 0.1 w2")
      from maybe_add_cases [OF m]
      have c3: "calls w3 = calls w2" and cue: "cue = [] \<or> (\<exists>action \<in> set ACTIONS. cue = '' '' @ action)"
        by auto
      obtain res2 m2 w4 where b: "add_message m1 ''assistant'' (concat cs @ cue) None None w3 = (res2, m2, w4)"
        by (metis prod_cases3)
      have c4: "calls w4 = calls w3" using add_message_calls [OF b] .
      from a Inr g None m b assms have "ys = cs @ (if cue \<noteq> [] then [cue] else [])" "w' = w4"
        by (auto simp: stream_turn_def Let_def history_def w2_def split: sum.splits)
      with g None c1 c3 c4 cue show ?thesis
        by (intro disjI2 exI [of _ history] exI [of _ "if cue \<noteq> [] then [cue] else []"])
          (auto simp: w2_def)
    qed
  qed
qed


text \<open>
  C8.  For an input that is not empty after stripping and that no command category
  matches, \<^verbatim>\<open>chat_stream\<close> run to its end either raises while storing the user message,
  before any handler is called and any chunk is yielded; or it makes exactly one call, to
  \<^verbatim>\<open>generate_stream\<close> of the primary handler, and yields that stream's chunks followed
  by at most one cue light chunk.  No fallback handler is called: when the primary's
  stream raises, at its start or later, no chunk follows and the exception leaves
  \<^verbatim>\<open>chat_stream\<close>.
\<close>

theorem chat_stream_primary_only:
  assumes "strip raw_input \<noteq> []"
    and "fst (handle_special_commands self (strip raw_input) w) = None"
    and "chat_stream self raw_input w = ((ys, ending), self', w')"
  shows "(calls w' = calls w \<and> ys = [] \<and> ending \<noteq> None)
         \<or> (\<exists>history tail.
               calls w' = calls w
                 @ [HandlerStream (primary_handler (llm self)) (strip raw_input) (Some history)]
               \<and> ys = fst (generate_stream (primary_handler (llm self)) (strip raw_input)
                             (Some history)) @ tail
               \<and> (tail = [] \<or> (\<exists>action \<in> set ACTIONS. tail = ['' '' @ action]))
               \<and> (\<forall>e. snd (generate_stream (primary_handler (llm self)) (strip raw_input)
                             (Some history)) = Some e
                      \<longrightarrow> tail = [] \<and> ending = Some e))"
proof -
  obtain r w1 where h: "handle_special_commands self (strip raw_input) w = (r, w1)"
    by (cases "handle_special_commands self (strip raw_input) w")
  with assms(2) have r: "r = None" by simp
  from h have w1: "calls w1 = calls w"
    using handle_special_commands_calls [of self "strip raw_input" w] by simp
  from assms(1,3) h r have "stream_turn self (strip raw_input) w1 = ((ys, ending), self', w')"
    by (simp add: chat_stream_def Let_def)
  from stream_turn_primary_only [OF this] w1 show ?thesis by simp
qed

lemma hello_text:
  "strip ''hello'' = ''hello''"
  "lower ''hello'' = ''hello''"
  "\<not> list_ex (contains ''hello'') [''what time'', ''time now'', ''current time'', ''what's the time'']"
  "\<not> re_search_words [''bye'', ''goodbye'', ''exit'', ''quit''] ''hello''"
  "\<not> contains ''hello'' ''humor''"
  "\<not> contains ''hello'' ''honesty''"
  "\<not> re_search_words [''who are you'', ''what are you'', ''your name''] ''hello''"
  by code_simp+

lemma hello_not_intercepted:
  "handle_special_commands self ''hello'' w = (None, w)"
  by (simp add: handle_special_commands_def hello_text Let_def)

lemma chat_stream_hello:
  "chat_stream test_engine ''hello'' quiet_world =
     (([], Some (Exception ''ConnectionError'' ''lm_studio is down'')),
      test_engine\<lparr>memory := fst (snd (add_message (test_store 50) ''user'' ''hello'' None None quiet_world))\<rparr>,
      (snd (snd (add_message (test_store 50) ''user'' ''hello'' None None quiet_world)))
        \<lparr>calls := [HandlerStream (raising_handler ''lm_studio'') ''hello'' (Some [])]\<rparr>)"
  by (simp add: chat_stream_def hello_text hello_not_intercepted stream_turn_def test_engine_def
      add_message_def test_store_def get_conversation_def append_trim_save_def now_def Let_def
      quiet_world_def save_conversation_def get_history_def Conversation_get_history_def
      to_dict_def slice_from_def raising_handler_def)

theorem chat_stream_primary_only_witness:
  "strip ''hello'' \<noteq> []
   \<and> fst (handle_special_commands test_engine (strip ''hello'') quiet_world) = None
   \<and> fst (chat_stream test_engine ''hello'' quiet_world) =
       ([], Some (Exception ''ConnectionError'' ''lm_studio is down''))
   \<and> calls (snd (snd (chat_stream test_engine ''hello'' quiet_world))) =
       [HandlerStream (raising_handler ''lm_studio'') ''hello'' (Some [])]
   \<and> (\<exists>history.
         calls (snd (snd (chat_stream test_engine ''hello'' quiet_world))) =
           calls quiet_world
             @ [HandlerStream (primary_handler (llm test_engine)) (strip ''hello'') (Some history)])"
proof -
  have 1: "strip ''hello'' \<noteq> []" by (simp add: hello_text)
  have 2: "fst (handle_special_commands test_engine (strip ''hello'') quiet_world) = None"
    by (simp add: hello_text hello_not_intercepted)
  have q: "calls quiet_world = []" by (simp add: quiet_world_def)
  have 3: "chat_stream test_engine ''hello'' quiet_world =
             ((fst (fst (chat_stream test_engine ''hello'' quiet_world)),
               snd (fst (chat_stream test_engine ''hello'' quiet_world))),
              fst (snd (chat_stream test_engine ''hello'' quiet_world)),
              snd (snd (chat_stream test_engine ''hello'' quiet_world)))"
    by simp
  from chat_stream_primary_only [OF 1 2 3]
  have "\<exists>history.
         calls (snd (snd (chat_stream test_engine ''hello'' quiet_world))) =
           calls quiet_world
             @ [HandlerStream (primary_handler (llm test_engine)) (strip ''hello'') (Some history)]"
    unfolding chat_stream_hello q by auto
  with 1 2 show ?thesis
    by (simp add: chat_stream_hello)
qed


section \<open>Properties of engine construction\<close>

lemma get_llm_handler_unknown:
  "lower (llm_provider config) \<notin> set providers_to_try
   \<Longrightarrow> get_llm_handler L config =
         Inl (Exception ''ValueError'' (''Unknown LLM provider: '' @ lower (llm_provider config)))"
  by (simp add: get_llm_handler_def providers_to_try_def Let_def)

lemma get_llm_handler_known:
  "lower (llm_provider config) \<in> set providers_to_try
   \<Longrightarrow> get_llm_handler L config = handler_class L config (lower (llm_provider config))"
  by (auto simp: get_llm_handler_def handler_class_def providers_to_try_def Let_def)

lemma TARSEngine_init_primary_fails:
  "get_llm_handler L config = Inl e
   \<Longrightarrow> fst (TARSEngine_init L config None store rg with_rag rag w) = Inl e"
  by (simp add: TARSEngine_init_def MultiProviderLLM_init_def)

lemma handler_class_returns:
  assumes "GEMINI_AVAILABLE L" and "\<forall>url key. OpenAI L url key = None"
    and "\<forall>key model_name sys. GenerativeModel L key model_name sys = None"
    and "p \<in> set providers_to_try"
  shows "\<exists>h. handler_class L config p = Inr h \<and> provider_of h = p"
  using assms
  by (auto simp: handler_class_def providers_to_try_def OpenAIHandler_def LMStudioHandler_def
      OllamaHandler_def GeminiHandler_def Let_def)

lemma constructors_return_raise_Exception:
  "\<forall>url key. OpenAI L url key = None \<Longrightarrow> \<forall>key model_name sys. GenerativeModel L key model_name sys = None
   \<Longrightarrow> constructors_raise_Exception L"
  by (simp add: constructors_raise_Exception_def)

lemma MultiProviderLLM_init_returns:
  assumes "GEMINI_AVAILABLE L" and "\<forall>url key. OpenAI L url key = None"
    and "\<forall>key model_name sys. GenerativeModel L key model_name sys = None"
    and "lower (llm_provider config) \<in> set providers_to_try"
  shows "\<exists>router. MultiProviderLLM_init L config = Inr router
           \<and> provider_of (primary_handler router) = lower (llm_provider config)"
proof -
  from handler_class_returns [OF assms] get_llm_handler_known [OF assms(4)]
  obtain h where h: "get_llm_handler L config = Inr h" "provider_of h = lower (llm_provider config)"
    by metis
  from setup_fallbacks_order [OF constructors_return_raise_Exception [OF assms(2,3)], of config]
  obtain hs where "setup_fallbacks L config [] = Inr hs" by blast
  with h show ?thesis by (simp add: MultiProviderLLM_init_def)
qed

lemma OpenAIHandler_raises_iff:
  "OpenAIHandler L config url key mdl = Inl e \<longleftrightarrow>
     OpenAI L (or_else url ''https://api.openai.com/v1'') (or_else key (openai_api_key config)) = Some e"
  by (simp add: OpenAIHandler_def Let_def split: option.splits)

lemma LMStudioHandler_raises_iff:
  "LMStudioHandler L config = Inl e \<longleftrightarrow>
     OpenAI L (or_else (Some (lm_studio_base_url config)) ''https://api.openai.com/v1'')
       ''lm-studio'' = Some e"
proof -
  have k: "or_else (Some ''lm-studio'') (openai_api_key config) = ''lm-studio''"
    by (simp add: or_else_def)
  have "LMStudioHandler L config = Inl e \<longleftrightarrow>
          OpenAIHandler L config (Some (lm_studio_base_url config)) (Some ''lm-studio'')
            (Some (lm_studio_model config)) = Inl e"
    by (cases "OpenAIHandler L config (Some (lm_studio_base_url config)) (Some ''lm-studio'')
                 (Some (lm_studio_model config))")
      (simp_all add: LMStudioHandler_def)
  then show ?thesis
    by (simp only: OpenAIHandler_raises_iff k)
qed

lemma OllamaHandler_raises_iff:
  "OllamaHandler L config = Inl e \<longleftrightarrow>
     OpenAI L (ollama_base_url config @ ''/v1'') ''ollama'' = Some e"
  by (simp add: OllamaHandler_def Let_def split: option.splits)

lemma GeminiHandler_raises_iff:
  "GeminiHandler L config = Inl e \<longleftrightarrow>
     (\<not> GEMINI_AVAILABLE L
        \<and> e = Exception ''ImportError'' ''google-generativeai package not installed'')
     \<or> (GEMINI_AVAILABLE L
        \<and> GenerativeModel L (gemini_api_key config) (gemini_model config)
             (get_tars_personality_prompt config) = Some e)"
  by (auto simp: GeminiHandler_def Let_def split: option.splits)

lemma get_llm_handler_raises_iff:
  "get_llm_handler L config = Inl e \<longleftrightarrow>
     (lower (llm_provider config) \<notin> set providers_to_try
        \<and> e = Exception ''ValueError'' (''Unknown LLM provider: '' @ lower (llm_provider config)))
     \<or> (lower (llm_provider config) = ''gemini'' \<and> \<not> GEMINI_AVAILABLE L
        \<and> e = Exception ''ImportError'' ''google-generativeai package not installed'')
     \<or> (lower (llm_provider config) = ''gemini'' \<and> GEMINI_AVAILABLE L
        \<and> GenerativeModel L (gemini_api_key config) (gemini_model config)
             (get_tars_personality_prompt config) = Some e)
     \<or> (lower (llm_provider config) = ''openai''
        \<and> OpenAI L ''https://api.openai.com/v1'' (openai_api_key config) = Some e)
     \<or> (lower (llm_provider config) = ''lm_studio''
        \<and> OpenAI L (or_else (Some (lm_studio_base_url config)) ''https://api.openai.com/v1'')
             ''lm-studio'' = Some e)
     \<or> (lower (llm_provider config) = ''ollama''
        \<and> OpenAI L (ollama_base_url config @ ''/v1'') ''ollama'' = Some e)"
proof -
  define p where "p = lower (llm_provider config)"
  have o: "or_else None ''https://api.openai.com/v1'' = ''https://api.openai.com/v1''"
    "or_else None (openai_api_key config) = openai_api_key config"
    by (simp_all add: or_else_def)
  consider "p = ''openai''" | "p = ''gemini''" | "p = ''lm_studio''" | "p = ''ollama''"
    | "p \<notin> set providers_to_try"
    by (auto simp: providers_to_try_def)
  then show ?thesis
  proof cases
    case 1
    then have "get_llm_handler L config = OpenAIHandler L config None None None"
      by (simp add: get_llm_handler_def p_def)
    with 1 show ?thesis
      unfolding p_def [symmetric]
      by (simp add: OpenAIHandler_raises_iff o providers_to_try_def)
  next
    case 2
    then have "get_llm_handler L config = GeminiHandler L config"
      by (simp add: get_llm_handler_def p_def)
    with 2 show ?thesis
      unfolding p_def [symmetric]
      by (simp add: GeminiHandler_raises_iff providers_to_try_def)
  next
    case 3
    then have "get_llm_handler L config = LMStudioHandler L config"
      by (simp add: get_llm_handler_def p_def)
    with 3 show ?thesis
      unfolding p_def [symmetric]
      by (simp add: LMStudioHandler_raises_iff providers_to_try_def)
  next
    case 4
    then have "get_llm_handler L config = OllamaHandler L config"
      by (simp add: get_llm_handler_def p_def)
    with 4 show ?thesis
      unfolding p_def [symmetric]
      by (simp add: OllamaHandler_raises_iff providers_to_try_def)
  next
    case 5
    then have "get_llm_handler L config =
                 Inl (Exception ''ValueError'' (''Unknown LLM provider: '' @ p))"
      by (simp add: get_llm_handler_def p_def providers_to_try_def Let_def)
    with 5 show ?thesis
      unfolding p_def [symmetric]
      by (auto simp: providers_to_try_def)
  qed
qed

lemma get_llm_handler_models:
  "isl (get_llm_handler L (config\<lparr>openai_model := m1, lm_studio_model := m2, ollama_model := m3\<rparr>))
     = isl (get_llm_handler L config)"
proof -
  let ?c = "config\<lparr>openai_model := m1, lm_studio_model := m2, ollama_model := m3\<rparr>"
  have "\<And>e. get_llm_handler L ?c = Inl e \<longleftrightarrow> get_llm_handler L config = Inl e"
    unfolding get_llm_handler_raises_iff
    by (simp add: get_tars_personality_prompt_def)
  then show ?thesis
    by (metis isl_def)
qed

lemma MultiProviderLLM_init_primary:
  assumes "get_llm_handler L config = Inr h" and "constructors_raise_Exception L"
  shows "\<exists>fallbacks. MultiProviderLLM_init L config =
           Inr \<lparr>primary_handler = h, fallback_handlers = fallbacks\<rparr>"
proof -
  from setup_fallbacks_order [OF assms(2), of config]
  obtain hs where "setup_fallbacks L config [] = Inr hs" by blast
  with assms(1) show ?thesis by (simp add: MultiProviderLLM_init_def)
qed

text \<open>
  C4, as amended.  Building the primary handler raises in exactly these cases: the
  provider name is not one of the four (\<^verbatim>\<open>ValueError\<close>, "Unknown LLM provider: ...");
  the provider is \<open>gemini\<close> and the package is not installed (\<^verbatim>\<open>ImportError\<close>); the
  client library's constructor, called with the arguments shown, raises.  Engine
  construction with the default router then raises the same exception.  The
  repository's code checks no key and no model identifier: the model names of openai,
  lm\_studio and ollama have no influence on whether the handler is built; a handler
  that is built becomes the primary of the router whenever the client constructors raise
  nothing but \<^verbatim>\<open>Exception\<close>s; and when the client constructors return, the router is
  built for each of the four providers, whatever the keys and the model names are.
\<close>

theorem engine_construction_failures:
  "(get_llm_handler L config = Inl e \<longleftrightarrow>
      (lower (llm_provider config) \<notin> set providers_to_try
         \<and> e = Exception ''ValueError'' (''Unknown LLM provider: '' @ lower (llm_provider config)))
      \<or> (lower (llm_provider config) = ''gemini'' \<and> \<not> GEMINI_AVAILABLE L
         \<and> e = Exception ''ImportError'' ''google-generativeai package not installed'')
      \<or> (lower (llm_provider config) = ''gemini'' \<and> GEMINI_AVAILABLE L
         \<and> GenerativeModel L (gemini_api_key config) (gemini_model config)
              (get_tars_personality_prompt config) = Some e)
      \<or> (lower (llm_provider config) = ''openai''
         \<and> OpenAI L ''https://api.openai.com/v1'' (openai_api_key config) = Some e)
      \<or> (lower (llm_provider config) = ''lm_studio''
         \<and> OpenAI L (or_else (Some (lm_studio_base_url config)) ''https://api.openai.com/v1'')
              ''lm-studio'' = Some e)
      \<or> (lower (llm_provider config) = ''ollama''
         \<and> OpenAI L (ollama_base_url config @ ''/v1'') ''ollama'' = Some e))
   \<and> (get_llm_handler L config = Inl e \<longrightarrow>
        fst (TARSEngine_init L config None store rg with_rag rag w) = Inl e)
   \<and> isl (get_llm_handler L
             (config\<lparr>openai_model := m1, lm_studio_model := m2, ollama_model := m3\<rparr>))
       = isl (get_llm_handler L config)
   \<and> (get_llm_handler L config = Inr h \<and> constructors_raise_Exception L \<longrightarrow>
        (\<exists>fallbacks. MultiProviderLLM_init L config =
           Inr \<lparr>primary_handler = h, fallback_handlers = fallbacks\<rparr>))
   \<and> (lower (llm_provider config) \<in> set providers_to_try
        \<and> GEMINI_AVAILABLE L \<and> (\<forall>url key. OpenAI L url key = None)
        \<and> (\<forall>key model_name sys. GenerativeModel L key model_name sys = None) \<longrightarrow>
        (\<exists>router. MultiProviderLLM_init L config = Inr router
           \<and> provider_of (primary_handler router) = lower (llm_provider config)))"
proof (intro conjI impI)
  show "get_llm_handler L config = Inl e \<longleftrightarrow>
      (lower (llm_provider config) \<notin> set providers_to_try
         \<and> e = Exception ''ValueError'' (''Unknown LLM provider: '' @ lower (llm_provider config)))
      \<or> (lower (llm_provider config) = ''gemini'' \<and> \<not> GEMINI_AVAILABLE L
         \<and> e = Exception ''ImportError'' ''google-generativeai package not installed'')
      \<or> (lower (llm_provider config) = ''gemini'' \<and> GEMINI_AVAILABLE L
         \<and> GenerativeModel L (gemini_api_key config) (gemini_model config)
              (get_tars_personality_prompt config) = Some e)
      \<or> (lower (llm_provider config) = ''openai''
         \<and> OpenAI L ''https://api.openai.com/v1'' (openai_api_key config) = Some e)
      \<or> (lower (llm_provider config) = ''lm_studio''
         \<and> OpenAI L (or_else (Some (lm_studio_base_url config)) ''https://api.openai.com/v1'')
              ''lm-studio'' = Some e)
      \<or> (lower (llm_provider config) = ''ollama''
         \<and> OpenAI L (ollama_base_url config @ ''/v1'') ''ollama'' = Some e)"
    by (rule get_llm_handler_raises_iff)
next
  assume "get_llm_handler L config = Inl e"
  then show "fst (TARSEngine_init L config None store rg with_rag rag w) = Inl e"
    by (rule TARSEngine_init_primary_fails)
next
  show "isl (get_llm_handler L
               (config\<lparr>openai_model := m1, lm_studio_model := m2, ollama_model := m3\<rparr>))
          = isl (get_llm_handler L config)"
    by (rule get_llm_handler_models)
next
  assume "get_llm_handler L config = Inr h \<and> constructors_raise_Exception L"
  then show "\<exists>fallbacks. MultiProviderLLM_init L config =
               Inr \<lparr>primary_handler = h, fallback_handlers = fallbacks\<rparr>"
    using MultiProviderLLM_init_primary [of L config h] by blast
next
  assume "lower (llm_provider config) \<in> set providers_to_try
          \<and> GEMINI_AVAILABLE L \<and> (\<forall>url key. OpenAI L url key = None)
          \<and> (\<forall>key model_name sys. GenerativeModel L key model_name sys = None)"
  then show "\<exists>router. MultiProviderLLM_init L config = Inr router
               \<and> provider_of (primary_handler router) = lower (llm_provider config)"
    using MultiProviderLLM_init_returns [of L config] by blast
qed

text \<open>
  C4 as stated fails.  The configuration that selects \<open>openai\<close> with a key and leaves
  the model at its default, the empty string, lacks its model identifier; so does the
  default configuration with an empty LM Studio model.  With a client library whose
  constructors return, the primary handler and the engine are constructed.
\<close>

theorem engine_construction_counterexample:
  "lacks_credential_or_model
     (default_config\<lparr>llm_provider := ''openai'', openai_api_key := ''sk-test''\<rparr>)
   \<and> \<not> isl (get_llm_handler answering_libs
               (default_config\<lparr>llm_provider := ''openai'', openai_api_key := ''sk-test''\<rparr>))
   \<and> \<not> isl (fst (TARSEngine_init answering_libs
                   (default_config\<lparr>llm_provider := ''openai'', openai_api_key := ''sk-test''\<rparr>)
                   None (test_store 50) default_generator False
                   (None :: (pyexc + unit RAGSystem) option) quiet_world))
   \<and> lacks_credential_or_model (default_config\<lparr>lm_studio_model := []\<rparr>)
   \<and> \<not> isl (get_llm_handler answering_libs (default_config\<lparr>lm_studio_model := []\<rparr>))
   \<and> \<not> isl (fst (TARSEngine_init answering_libs (default_config\<lparr>lm_studio_model := []\<rparr>)
                   None (test_store 50) default_generator False
                   (None :: (pyexc + unit RAGSystem) option) quiet_world))"
  by (simp add: lacks_credential_or_model_def TARSEngine_init_def MultiProviderLLM_init_def
      get_llm_handler_def lower_provider_keys OpenAIHandler_def answering_libs_def Let_def
      setup_fallbacks_def providers_to_try_def create_handler_for_provider_def
      default_config_def LMStudioHandler_def OllamaHandler_def get_or_create_active_def
      test_store_def)

lemma lower_Claude: "lower ''Claude'' = ''claude''"
  by code_simp

theorem engine_construction_failures_witness:
  "get_llm_handler answering_libs (default_config\<lparr>llm_provider := ''Claude''\<rparr>) =
     Inl (Exception ''ValueError'' ''Unknown LLM provider: claude'')
   \<and> fst (TARSEngine_init answering_libs (default_config\<lparr>llm_provider := ''Claude''\<rparr>) None
            (test_store 50) default_generator False (None :: (pyexc + unit RAGSystem) option)
            quiet_world) =
       Inl (Exception ''ValueError'' ''Unknown LLM provider: claude'')
   \<and> get_llm_handler (answering_libs\<lparr>GEMINI_AVAILABLE := False\<rparr>)
        (default_config\<lparr>llm_provider := ''gemini''\<rparr>) =
       Inl (Exception ''ImportError'' ''google-generativeai package not installed'')
   \<and> fst (TARSEngine_init (answering_libs\<lparr>GEMINI_AVAILABLE := False\<rparr>)
            (default_config\<lparr>llm_provider := ''gemini''\<rparr>) None
            (test_store 50) default_generator False (None :: (pyexc + unit RAGSystem) option)
            quiet_world) =
       Inl (Exception ''ImportError'' ''google-generativeai package not installed'')
   \<and> get_llm_handler
        (answering_libs\<lparr>OpenAI := (\<lambda>url key. Some (Exception ''OpenAIError'' ''refused''))\<rparr>)
        default_config = Inl (Exception ''OpenAIError'' ''refused'')
   \<and> fst (TARSEngine_init
            (answering_libs\<lparr>OpenAI := (\<lambda>url key. Some (Exception ''OpenAIError'' ''refused''))\<rparr>)
            default_config None
            (test_store 50) default_generator False (None :: (pyexc + unit RAGSystem) option)
            quiet_world) =
       Inl (Exception ''OpenAIError'' ''refused'')
   \<and> constructors_raise_Exception answering_libs
   \<and> (\<exists>h fallbacks.
         get_llm_handler answering_libs (default_config\<lparr>lm_studio_model := []\<rparr>) = Inr h
         \<and> MultiProviderLLM_init answering_libs (default_config\<lparr>lm_studio_model := []\<rparr>) =
             Inr \<lparr>primary_handler = h, fallback_handlers = fallbacks\<rparr>)
   \<and> GEMINI_AVAILABLE answering_libs
   \<and> (\<exists>router. MultiProviderLLM_init answering_libs (default_config\<lparr>llm_provider := ''openai''\<rparr>)
                  = Inr router
         \<and> provider_of (primary_handler router) = ''openai'')"
proof -
  let ?store = "test_store 50"
  let ?rag = "None :: (pyexc + unit RAGSystem) option"
  let ?V = "Exception ''ValueError'' ''Unknown LLM provider: claude''"
  let ?I = "Exception ''ImportError'' ''google-generativeai package not installed''"
  let ?O = "Exception ''OpenAIError'' ''refused''"
  let ?L = "answering_libs\<lparr>OpenAI := (\<lambda>url key. Some ?O)\<rparr>"
  note T1 = engine_construction_failures
    [where config = "default_config\<lparr>llm_provider := ''Claude''\<rparr>" and L = answering_libs
      and e = ?V and store = ?store and rg = default_generator and with_rag = False
      and rag = ?rag and w = quiet_world]
  have u: "lower (llm_provider (default_config\<lparr>llm_provider := ''Claude''\<rparr>)) \<notin> set providers_to_try"
    by (simp add: lower_Claude providers_to_try_def)
  from T1 u have 1: "get_llm_handler answering_libs (default_config\<lparr>llm_provider := ''Claude''\<rparr>) = Inl ?V"
    by (simp add: lower_Claude)
  with T1 have e1: "fst (TARSEngine_init answering_libs (default_config\<lparr>llm_provider := ''Claude''\<rparr>)
                          None ?store default_generator False ?rag quiet_world) = Inl ?V"
    by blast
  note T2 = engine_construction_failures
    [where config = "default_config\<lparr>llm_provider := ''gemini''\<rparr>"
      and L = "answering_libs\<lparr>GEMINI_AVAILABLE := False\<rparr>"
      and e = ?I and store = ?store and rg = default_generator and with_rag = False
      and rag = ?rag and w = quiet_world]
  from T2 have 2: "get_llm_handler (answering_libs\<lparr>GEMINI_AVAILABLE := False\<rparr>)
                     (default_config\<lparr>llm_provider := ''gemini''\<rparr>) = Inl ?I"
    by (simp add: lower_provider_keys)
  with T2 have e2: "fst (TARSEngine_init (answering_libs\<lparr>GEMINI_AVAILABLE := False\<rparr>)
                          (default_config\<lparr>llm_provider := ''gemini''\<rparr>) None
                          ?store default_generator False ?rag quiet_world) = Inl ?I"
    by blast
  note T3 = engine_construction_failures
    [where config = default_config and L = ?L and e = ?O and store = ?store
      and rg = default_generator and with_rag = False and rag = ?rag and w = quiet_world]
  have p: "lower (llm_provider default_config) = ''lm_studio''"
    by (simp add: default_config_def lower_provider_keys)
  from T3 p have 3: "get_llm_handler ?L default_config = Inl ?O"
    by simp
  with T3 have e3: "fst (TARSEngine_init ?L default_config None ?store default_generator False
                          ?rag quiet_world) = Inl ?O"
    by blast
  have ctor: "constructors_raise_Exception answering_libs"
    by (simp add: constructors_raise_Exception_def answering_libs_def)
  have "\<not> isl (get_llm_handler answering_libs (default_config\<lparr>lm_studio_model := []\<rparr>))"
    by (simp add: get_llm_handler_def default_config_def lower_provider_keys LMStudioHandler_def
        OpenAIHandler_def answering_libs_def Let_def)
  then obtain h where h: "get_llm_handler answering_libs (default_config\<lparr>lm_studio_model := []\<rparr>) = Inr h"
    by (cases "get_llm_handler answering_libs (default_config\<lparr>lm_studio_model := []\<rparr>)") auto
  from engine_construction_failures
    [where config = "default_config\<lparr>lm_studio_model := []\<rparr>" and L = answering_libs and h = h
      and rag = ?rag] h ctor
  have 4: "\<exists>h fallbacks.
             get_llm_handler answering_libs (default_config\<lparr>lm_studio_model := []\<rparr>) = Inr h
             \<and> MultiProviderLLM_init answering_libs (default_config\<lparr>lm_studio_model := []\<rparr>) =
                 Inr \<lparr>primary_handler = h, fallback_handlers = fallbacks\<rparr>"
    by blast
  have a: "lower (llm_provider (default_config\<lparr>llm_provider := ''openai''\<rparr>)) \<in> set providers_to_try
           \<and> GEMINI_AVAILABLE answering_libs \<and> (\<forall>url key. OpenAI answering_libs url key = None)
           \<and> (\<forall>key model_name sys. GenerativeModel answering_libs key model_name sys = None)"
    by (simp add: lower_provider_keys providers_to_try_def answering_libs_def)
  from engine_construction_failures
    [where config = "default_config\<lparr>llm_provider := ''openai''\<rparr>" and L = answering_libs
      and rag = ?rag] a
  have 5: "\<exists>router. MultiProviderLLM_init answering_libs (default_config\<lparr>llm_provider := ''openai''\<rparr>)
                      = Inr router
             \<and> provider_of (primary_handler router) = ''openai''"
    by (simp add: lower_provider_keys)
  from a have g: "GEMINI_AVAILABLE answering_libs" by simp
  from 1 e1 2 e2 3 e3 ctor 4 g 5 show ?thesis by blast
qed

end
